theory Spec2Isabelle
  imports Main "HOL-Library.AList"
begin

section \<open>Exceptions\<close>

text \<open>
  The Python exceptions that \<^verbatim>\<open>client_5paisa/base.py\<close> raises itself or lets through from
  pandas, the standard library and the wrapped broker library. The string is the message;
  only the messages written in \<^verbatim>\<open>base.py\<close> are literal, those of library exceptions are
  descriptive. \<open>LibraryError\<close> is any failure of an external call (network, login, a
  malformed reply), which the code propagates unchanged.
\<close>

datatype error =
    ValueError string
  | TypeError string
  | AttributeError string
  | KeyError string
  | IndexError string
  | LibraryError string

section \<open>The symbol table (class ScripMaster)\<close>

text \<open>
  One row of the scrip master table, with the columns \<^verbatim>\<open>base.py\<close> reads. A text cell is
  \<open>None\<close> when pandas read it as NaN. The record is polymorphic in the type of the
  \<open>Name\<close>/\<open>Symbol\<close> cells and of the \<open>Expiry\<close> cell: as \<^verbatim>\<open>read_csv\<close> returns it a name is
  a cell that may be NaN and an expiry is text; after \<^verbatim>\<open>ScripMaster.__init__\<close> a name is a
  string and an expiry a parsed timestamp (\<open>None\<close> for NaT).
\<close>

record ('s, 'e) scrip_row =
  Exch :: "string option"
  ExchType :: "string option"
  Symbol :: 's
  Name :: 's
  Series :: "string option"
  Scripcode :: int
  Expiry :: 'e

text \<open>A timestamp: year, month, day, hour, minute, second.\<close>

type_synonym timestamp = "nat \<times> nat \<times> nat \<times> nat \<times> nat \<times> nat"

type_synonym csv_row = "(string option, string option) scrip_row"
type_synonym table_row = "(string, timestamp option) scrip_row"

text \<open>
  A frame whose index is the \<open>Name\<close> column (\<^verbatim>\<open>d2.set_index("Name")\<close>): each row is paired
  with its index label. The label is the row's \<open>Name\<close>, which the pair's second component
  still carries.
\<close>

type_synonym scrip_frame = "(string \<times> table_row) list"

record ScripMaster =
  data :: "table_row list"

text \<open>
  \<^verbatim>\<open>str.upper\<close>, on ASCII text: the letters a to z are mapped to A to Z and every other
  character is kept. Python's \<^verbatim>\<open>str.upper\<close> is aware of Unicode (it maps letters beyond
  ASCII and can change the length of the text), so this definition is exact for ASCII
  names only, which is what the scrip master holds.
\<close>

definition upper_char :: "char \<Rightarrow> char" where
  "upper_char c =
     (case map_of (zip ''abcdefghijklmnopqrstuvwxyz'' ''ABCDEFGHIJKLMNOPQRSTUVWXYZ'') c of
        Some u \<Rightarrow> u
      | None \<Rightarrow> c)"

definition str_upper :: "string \<Rightarrow> string" where
  "str_upper s = map upper_char s"

text \<open>
  What \<^verbatim>\<open>ScripMaster.__init__\<close> calls from pandas: \<open>read_csv path index_col0\<close> is
  \<^verbatim>\<open>read_csv(path, index_col=0, low_memory=False)\<close> when \<open>index_col0\<close> holds and
  \<^verbatim>\<open>read_csv(path)\<close> otherwise; \<open>to_datetime_fmt\<close> parses one text cell with the format
  \<^verbatim>\<open>%Y-%m-%d %H:%M:%S\<close> and is \<open>None\<close> where pandas raises.
\<close>

record pandas =
  read_csv :: "string \<Rightarrow> bool \<Rightarrow> error + csv_row list"
  to_datetime_fmt :: "string \<Rightarrow> timestamp option"

text \<open>
  \<^verbatim>\<open>self.data["Expiry"] = to_datetime(self.data["Expiry"], format=...)\<close>: a NaN cell becomes
  NaT, a text cell is parsed, and one cell that does not parse raises for the whole column.
\<close>

fun parse_expiry_column ::
  "pandas \<Rightarrow> csv_row list \<Rightarrow> error + (string option, timestamp option) scrip_row list" where
  "parse_expiry_column pd [] = Inr []"
| "parse_expiry_column pd (r # rs) =
     (case (case Expiry r of
              None \<Rightarrow> Inr None
            | Some s \<Rightarrow>
                (case to_datetime_fmt pd s of
                   None \<Rightarrow> Inl (ValueError ''time data does not match format'')
                 | Some t \<Rightarrow> Inr (Some t))) of
        Inl e \<Rightarrow> Inl e
      | Inr t \<Rightarrow>
          (case parse_expiry_column pd rs of
             Inl e \<Rightarrow> Inl e
           | Inr rs' \<Rightarrow>
               Inr (\<lparr>Exch = Exch r, ExchType = ExchType r, Symbol = Symbol r, Name = Name r,
                      Series = Series r, Scripcode = Scripcode r, Expiry = t\<rparr> # rs')))"

text \<open>
  \<^verbatim>\<open>self.data["Name"] = self.data["Name"].apply(str.upper)\<close> followed by
  \<^verbatim>\<open>self.data["Symbol"] = self.data["Name"]\<close>: \<^verbatim>\<open>str.upper\<close> of a NaN cell (a float) raises
  TypeError; the \<open>Symbol\<close> column is overwritten with the upper-cased names.
\<close>

fun upper_name_column ::
  "(string option, timestamp option) scrip_row list \<Rightarrow> error + table_row list" where
  "upper_name_column [] = Inr []"
| "upper_name_column (r # rs) =
     (case Name r of
        None \<Rightarrow> Inl (TypeError ''descriptor upper requires a str object'')
      | Some n \<Rightarrow>
          (case upper_name_column rs of
             Inl e \<Rightarrow> Inl e
           | Inr rs' \<Rightarrow>
               Inr (\<lparr>Exch = Exch r, ExchType = ExchType r, Symbol = str_upper n,
                      Name = str_upper n, Series = Series r, Scripcode = Scripcode r,
                      Expiry = Expiry r\<rparr> # rs')))"

definition scripmaster_url :: string where
  "scripmaster_url = ''https://images.5paisa.com/website/scripmaster-csv-format.csv''"

text \<open>The file \<^verbatim>\<open>__init__\<close> reads: the given path, or the broker's published file.\<close>

definition csv_source :: "pandas \<Rightarrow> string option \<Rightarrow> error + csv_row list" where
  "csv_source pd filepath =
     (case filepath of
        Some p \<Rightarrow> read_csv pd p True
      | None \<Rightarrow> read_csv pd scripmaster_url False)"

definition ScripMaster_init :: "pandas \<Rightarrow> string option \<Rightarrow> error + ScripMaster" where
  "ScripMaster_init pd filepath =
     (case csv_source pd filepath of
        Inl e \<Rightarrow> Inl e
      | Inr raw \<Rightarrow>
          (case parse_expiry_column pd raw of
             Inl e \<Rightarrow> Inl e
           | Inr d1 \<Rightarrow>
               (case upper_name_column d1 of
                  Inl e \<Rightarrow> Inl e
                | Inr d2 \<Rightarrow> Inr \<lparr>data = d2\<rparr>)))"

text \<open>\<^verbatim>\<open>ScripMaster.__call__\<close> returns the table.\<close>

definition ScripMaster_call :: "ScripMaster \<Rightarrow> table_row list \<times> ScripMaster" where
  "ScripMaster_call self = (data self, self)"

text \<open>
  \<^verbatim>\<open>ScripMaster.save\<close> writes the table to a file: the file system maps a path to the table
  stored there.
\<close>

definition ScripMaster_save ::
  "ScripMaster \<Rightarrow> string \<Rightarrow> (string \<times> table_row list) list
     \<Rightarrow> ScripMaster \<times> (string \<times> table_row list) list" where
  "ScripMaster_save self filepath files = (self, AList.update filepath (data self) files)"

text \<open>
  The relation between a row as \<^verbatim>\<open>read_csv\<close> returned it and the row of the loaded table:
  the name is present and upper-cased, the symbol is the upper-cased name, the expiry is
  parsed, and the other columns are as read.
\<close>

definition loaded_row :: "pandas \<Rightarrow> csv_row \<Rightarrow> table_row \<Rightarrow> bool" where
  "loaded_row pd r r' \<longleftrightarrow>
     (case Name r of
        None \<Rightarrow> False
      | Some n \<Rightarrow> Name r' = str_upper n \<and> Symbol r' = str_upper n) \<and>
     (case Expiry r of
        None \<Rightarrow> Expiry r' = None
      | Some t \<Rightarrow> to_datetime_fmt pd t \<noteq> None \<and> Expiry r' = to_datetime_fmt pd t) \<and>
     Exch r' = Exch r \<and> ExchType r' = ExchType r \<and> Series r' = Series r \<and>
     Scripcode r' = Scripcode r"

section \<open>Stocks\<close>

text \<open>A JSON object, or a row of a frame built from one: keys and values, the values as text.\<close>

type_synonym json_obj = "(string \<times> string) list"

text \<open>
  Modelled from the spec: the class \<^verbatim>\<open>Stock\<close> of \<^verbatim>\<open>finmetry/stock_base.py\<close>, which
  \<^verbatim>\<open>base.py\<close> imports and which is not among the sources. The spec's StockRef: the identity
  (symbol, exchange code, segment code) and mutable cache fields. \<^verbatim>\<open>base.py\<close> reads the
  attributes \<open>symbol\<close>, \<open>exchange\<close>, \<open>exchange_type\<close>, and reads and assigns the attributes
  \<open>scrip\<close> and \<open>option_chain\<close>; a cache attribute that was never assigned is \<open>None\<close>, and
  reading it raises AttributeError.
\<close>

record Stock =
  symbol :: string
  exchange :: string
  exchange_type :: string
  scrip :: "scrip_frame option"
  option_chain :: "json_obj list option"

text \<open>
  Stocks are Python objects, shared by reference: a stock list is a list of references and
  the heap gives the object each reference points to, so that one object listed twice is
  one stock.
\<close>

type_synonym ref = nat
type_synonym heap = "ref \<Rightarrow> Stock"

section \<open>ScripMaster.get\_scrip\<close>

text \<open>
  The row filter of \<^verbatim>\<open>get_scrip\<close>: \<open>f1 & f2\<close>, where \<open>f1\<close> compares exchange, exchange type
  and symbol with the stock's and \<open>f2\<close> keeps the series EQ and XX.
\<close>

definition f1_f2 :: "Stock \<Rightarrow> table_row \<Rightarrow> bool" where
  "f1_f2 s1 r \<longleftrightarrow>
     (Exch r = Some (exchange s1) \<and> ExchType r = Some (exchange_type s1) \<and> Symbol r = symbol s1)
     \<and> (Series r = Some ''EQ'' \<or> Series r = Some ''XX'')"

definition set_index_Name :: "table_row list \<Rightarrow> scrip_frame" where
  "set_index_Name d2 = map (\<lambda>r. (Name r, r)) d2"

definition no_scrip_found :: "string \<Rightarrow> error" where
  "no_scrip_found name = ValueError (''No Scrip found for '' @ name @ '' in scrip_master'')"

text \<open>
  The loop of \<^verbatim>\<open>get_scrip\<close> over the stock list. \<open>ls1\<close> is the list of frames collected so
  far. A stock with a \<open>scrip\<close> attribute contributes it; for any other the table is filtered,
  an empty selection raises, and a non-empty one is indexed by name, stored on the stock and
  collected. The heap is returned as the loop left it, also when it raises.
\<close>

fun get_scrip_loop ::
  "ScripMaster \<Rightarrow> ref list \<Rightarrow> scrip_frame list \<Rightarrow> heap \<Rightarrow> (error + scrip_frame list) \<times> heap" where
  "get_scrip_loop self [] ls1 h = (Inr ls1, h)"
| "get_scrip_loop self (s1 # stocklist) ls1 h =
     (case scrip (h s1) of
        Some d \<Rightarrow> get_scrip_loop self stocklist (ls1 @ [d]) h
      | None \<Rightarrow>
          (let d1 = data self;
               d2 = filter (f1_f2 (h s1)) d1
           in if d2 = [] then (Inl (no_scrip_found (symbol (h s1))), h)
              else (let d2' = set_index_Name d2
                    in get_scrip_loop self stocklist (ls1 @ [d2'])
                         (h(s1 := (h s1)\<lparr>scrip := Some d2'\<rparr>)))))"

text \<open>\<^verbatim>\<open>pd.concat\<close> of a list of frames; pandas raises ValueError on an empty list.\<close>

definition pd_concat :: "scrip_frame list \<Rightarrow> error + scrip_frame" where
  "pd_concat ls1 = (if ls1 = [] then Inl (ValueError ''No objects to concatenate'') else Inr (concat ls1))"

text \<open>
  \<^verbatim>\<open>ScripMaster.get_scrip\<close>: the result or the exception, the scrip master and the heap
  after the call.
\<close>

definition get_scrip ::
  "ScripMaster \<Rightarrow> ref list \<Rightarrow> heap \<Rightarrow> (error + scrip_frame) \<times> ScripMaster \<times> heap" where
  "get_scrip self stocklist h =
     (case get_scrip_loop self stocklist [] h of
        (Inl e, h') \<Rightarrow> (Inl e, self, h')
      | (Inr ls1, h') \<Rightarrow> (pd_concat ls1, self, h'))"

text \<open>
  A stock is unresolved when it has no cached scrip and the filter selects no row of the
  table; \<open>resolved_frame\<close> is the frame a stock contributes otherwise, and \<open>cache_stocks\<close>
  is the heap in which each stock of a list carries that frame.
\<close>

definition unresolved :: "ScripMaster \<Rightarrow> Stock \<Rightarrow> bool" where
  "unresolved self s1 \<longleftrightarrow> scrip s1 = None \<and> filter (f1_f2 s1) (data self) = []"

definition resolved_frame :: "ScripMaster \<Rightarrow> Stock \<Rightarrow> scrip_frame" where
  "resolved_frame self s1 =
     (case scrip s1 of
        Some d \<Rightarrow> d
      | None \<Rightarrow> set_index_Name (filter (f1_f2 s1) (data self)))"

definition cache_stocks :: "ScripMaster \<Rightarrow> ref list \<Rightarrow> heap \<Rightarrow> heap" where
  "cache_stocks self rs h =
     (\<lambda>r. if r \<in> set rs then (h r)\<lparr>scrip := Some (resolved_frame self (h r))\<rparr> else h r)"

section \<open>The session client (class Client5paisa)\<close>

text \<open>
  Calendar dates (year, month, day), and the values the callers pass where \<^verbatim>\<open>base.py\<close>
  accepts \<^verbatim>\<open>Union[str, datetime]\<close>: a string, a \<^verbatim>\<open>datetime.date\<close> or a
  \<^verbatim>\<open>datetime.datetime\<close>. A date and a datetime are never equal in Python, as the two
  constructors are not here.
\<close>

type_synonym date = "nat \<times> nat \<times> nat"

datatype pydate = PyStr string | PyDate date | PyDatetime timestamp

text \<open>
  What the client sends: the requests made through the wrapped library and its HTTP
  session, and the events on the streaming connection.
\<close>

datatype request =
    HttpGet string "(string \<times> string) list"
  | FetchMarketDepthBySymbol "json_obj list"
  | FetchMarketFeed "json_obj list"
  | GetExpiry string string
  | GetOptionChain string string int

datatype ws_event = WsConnect string | WsSend string | WsRecv | WsClose

text \<open>The payload \<^verbatim>\<open>Request_Feed\<close> builds; the loops read its \<open>MarketFeedData\<close> list.\<close>

record feed_request =
  Method :: string
  Operation :: string
  MarketFeedData :: "json_obj list"

text \<open>
  The value the third argument of \<^verbatim>\<open>historical_data\<close> receives from
  \<^verbatim>\<open>scrip.loc[s1.symbol, "Scripcode"]\<close>: a scalar when one row carries the label, a Series
  when several do.
\<close>

datatype scripcode_arg = Scalar int | SeriesOf "int list"

text \<open>One candle of a historical table, indexed by its parsed \<open>Datetime\<close>.\<close>

record candle =
  Datetime :: "timestamp option"
  Open :: "string option"
  High :: "string option"
  Low :: "string option"
  Close :: "string option"
  Volume :: "string option"

text \<open>\<^verbatim>\<open>historical_data\<close> returns a table, or a message for an invalid time frame.\<close>

datatype hist_result = Message string | Candles "candle list"

text \<open>\<^verbatim>\<open>get_weekly_option_expiry\<close>: one row per published expiry.\<close>

record expiry_row =
  ExpiryDate :: string
  Timestamp :: int
  Date :: date

text \<open>
  Everything \<^verbatim>\<open>Client5paisa\<close> calls outside the repository: the wrapped broker library
  (\<^verbatim>\<open>py5paisa\<close>), its HTTP session, the websocket, \<^verbatim>\<open>json\<close>, \<^verbatim>\<open>datetime\<close>, pandas, and the
  method \<^verbatim>\<open>Stock.save_historical_data\<close>. A call that can raise returns a sum. JSON scalars
  are kept as text.
  \<^item> \<open>session_get url headers\<close>: \<^verbatim>\<open>session.get(url, headers=...).json()["data"]["candles"]\<close>;
  \<^item> \<open>fetch_market_depth_by_symbol a\<close>, \<open>fetch_market_feed a\<close>: the reply's \<^verbatim>\<open>["Data"]\<close>;
  \<^item> \<open>get_expiry exch symbol\<close>: the \<^verbatim>\<open>ExpiryDate\<close> texts of the reply's \<^verbatim>\<open>["Expiry"]\<close>;
  \<^item> \<open>p5_get_option_chain exch symbol ts\<close>: the reply's \<^verbatim>\<open>["Options"]\<close> of the inherited
    \<^verbatim>\<open>get_option_chain\<close>;
  \<^item> \<open>create_connection url\<close>: the exception, if opening the stream raises;
  \<^item> \<open>ws_inbound payload\<close>: the messages the stream delivers after \<open>payload\<close> was sent;
  \<^item> \<open>now\<close>: the clock's reading, as text; \<open>to_datetime\<close>: \<^verbatim>\<open>pd.to_datetime\<close> of one cell;
  \<^item> \<open>strftime_ymd\<close>, \<open>strptime_ymd\<close>: \<^verbatim>\<open>strftime\<close> and \<^verbatim>\<open>strptime(..).date()\<close> with
    \<^verbatim>\<open>%Y-%m-%d\<close>; \<open>date_fromtimestamp\<close>: \<^verbatim>\<open>date.fromtimestamp\<close>; \<open>py_int\<close>: \<^verbatim>\<open>int\<close> of a string;
  \<^item> \<open>series_str\<close>: how a Series is rendered in an f-string.
\<close>

record library =
  HISTORICAL_DATA_ROUTE :: string
  session_get :: "string \<Rightarrow> (string \<times> string) list \<Rightarrow> error + string option list list"
  fetch_market_depth_by_symbol :: "json_obj list \<Rightarrow> error + json_obj list"
  fetch_market_feed :: "json_obj list \<Rightarrow> error + json_obj list"
  Request_Feed :: "string \<Rightarrow> string \<Rightarrow> json_obj list \<Rightarrow> error + feed_request"
  get_expiry :: "string \<Rightarrow> string \<Rightarrow> error + string list"
  p5_get_option_chain :: "string \<Rightarrow> string \<Rightarrow> int \<Rightarrow> error + json_obj list"
  create_connection :: "string \<Rightarrow> error option"
  ws_inbound :: "string \<Rightarrow> string list"
  json_dumps :: "feed_request \<Rightarrow> string"
  json_loads :: "string \<Rightarrow> error + json_obj list"
  now :: string
  to_datetime :: "string \<Rightarrow> error + timestamp"
  strftime_ymd :: "pydate \<Rightarrow> string"
  strptime_ymd :: "string \<Rightarrow> error + date"
  date_fromtimestamp :: "int \<Rightarrow> error + date"
  py_int :: "string \<Rightarrow> error + int"
  series_str :: "int list \<Rightarrow> string"
  save_historical_data :: "Stock \<Rightarrow> hist_result \<Rightarrow> string \<Rightarrow> error + Stock"

text \<open>
  The client object: the attributes \<^verbatim>\<open>base.py\<close> reads and writes, the requests sent so
  far and the events on the streaming connection so far.
\<close>

record Client5paisa =
  scrip_master :: "ScripMaster option"
  jwt_headers :: "(string \<times> string) list"
  client_code :: string
  Jwt_token :: string
  requests :: "request list"
  ws_events :: "ws_event list"

definition check_scrip_master :: "Client5paisa \<Rightarrow> error + bool" where
  "check_scrip_master self =
     (if scrip_master self = None
      then Inl (TypeError ''scrip_master is None. Please provide ScripMaster instance.'')
      else Inr True)"

text \<open>
  The expression \<^verbatim>\<open>self.scrip_master.get_scrip(stocklist)\<close>: the attribute lookup on
  \<^verbatim>\<open>None\<close> raises AttributeError.
\<close>

definition scrip_master_get_scrip ::
  "Client5paisa \<Rightarrow> ref list \<Rightarrow> heap \<Rightarrow> (error + scrip_frame) \<times> Client5paisa \<times> heap" where
  "scrip_master_get_scrip self stocklist h =
     (case scrip_master self of
        None \<Rightarrow> (Inl (AttributeError ''NoneType object has no attribute get_scrip''), self, h)
      | Some sm \<Rightarrow>
          (case get_scrip sm stocklist h of
             (res, sm', h') \<Rightarrow> (res, self\<lparr>scrip_master := Some sm'\<rparr>, h')))"

subsection \<open>historical\_data\<close>

text \<open>Decimal text of an integer, as an f-string renders it.\<close>

fun str_of_nat :: "nat \<Rightarrow> string" where
  "str_of_nat n =
     (if n < 10 then [char_of (48 + n)] else str_of_nat (n div 10) @ [char_of (48 + n mod 10)])"

declare str_of_nat.simps [simp del]

definition str_of_int :: "int \<Rightarrow> string" where
  "str_of_int i = (if i < 0 then ''-'' @ str_of_nat (nat (- i)) else str_of_nat (nat i))"

definition str_of_scripcode :: "library \<Rightarrow> scripcode_arg \<Rightarrow> string" where
  "str_of_scripcode lib c = (case c of Scalar i \<Rightarrow> str_of_int i | SeriesOf cs \<Rightarrow> series_str lib cs)"

definition timeList :: "string list" where
  "timeList = [''1m'', ''5m'', ''10m'', ''15m'', ''30m'', ''60m'', ''1d'']"

definition invalid_time_frame :: string where
  "invalid_time_frame = ''Invalid Time Frame. it should be within [1m,5m,10m,15m,30m,60m,1d].''"

text \<open>
  \<^verbatim>\<open>pd.DataFrame(candleList)\<close> has as many columns as the longest row, shorter rows padded
  with missing cells; assigning the six column names raises unless there are six columns.
\<close>

definition frame_width :: "'a list list \<Rightarrow> nat" where
  "frame_width rows = foldr (\<lambda>r m. max (length r) m) rows 0"

definition candle_cells :: "string option list \<Rightarrow> string option list" where
  "candle_cells r = r @ replicate (6 - length r) None"

text \<open>\<^verbatim>\<open>df["Datetime"] = pd.to_datetime(df["Datetime"])\<close>, row by row.\<close>

fun candle_rows :: "library \<Rightarrow> string option list list \<Rightarrow> error + candle list" where
  "candle_rows lib [] = Inr []"
| "candle_rows lib (r # rs) =
     (case (case candle_cells r ! 0 of
              None \<Rightarrow> Inr None
            | Some t \<Rightarrow> (case to_datetime lib t of Inl e \<Rightarrow> Inl e | Inr ts \<Rightarrow> Inr (Some ts))) of
        Inl e \<Rightarrow> Inl e
      | Inr ts \<Rightarrow>
          (case candle_rows lib rs of
             Inl e \<Rightarrow> Inl e
           | Inr cs \<Rightarrow>
               Inr (\<lparr>Datetime = ts, Open = candle_cells r ! 1, High = candle_cells r ! 2,
                      Low = candle_cells r ! 3, Close = candle_cells r ! 4,
                      Volume = candle_cells r ! 5\<rparr> # cs)))"

definition historical_data ::
  "library \<Rightarrow> Client5paisa \<Rightarrow> string \<Rightarrow> string \<Rightarrow> scripcode_arg \<Rightarrow> string \<Rightarrow> string \<Rightarrow> string
     \<Rightarrow> (error + hist_result) \<times> Client5paisa" where
  "historical_data lib self exch exchangeSegment scripCode time from to =
     (let self1 = self\<lparr>jwt_headers :=
                   AList.update ''x-auth-token'' (Jwt_token self)
                     (AList.update ''x-clientcode'' (client_code self) (jwt_headers self))\<rparr>;
          url = HISTORICAL_DATA_ROUTE lib @ exch @ ''/'' @ exchangeSegment @ ''/''
                @ str_of_scripcode lib scripCode @ ''/'' @ time @ ''?from='' @ from @ ''&end='' @ to
      in if time \<notin> set timeList then (Inr (Message invalid_time_frame), self1)
         else (let self2 = self1\<lparr>requests := requests self1 @ [HttpGet url (jwt_headers self1)]\<rparr>
               in case session_get lib url (jwt_headers self1) of
                    Inl e \<Rightarrow> (Inl e, self2)
                  | Inr candleList \<Rightarrow>
                      if frame_width candleList \<noteq> 6
                      then (Inl (ValueError ''Length mismatch: expected axis has a different number of elements''), self2)
                      else (case candle_rows lib candleList of
                              Inl e \<Rightarrow> (Inl e, self2)
                            | Inr df \<Rightarrow> (Inr (Candles df), self2))))"

subsection \<open>download\_historical\_data\<close>

text \<open>
  \<^verbatim>\<open>scrip.loc[label, "Scripcode"]\<close> on a frame indexed by name: KeyError when no row carries
  the label.
\<close>

definition loc_Scripcode :: "scrip_frame \<Rightarrow> string \<Rightarrow> error + scripcode_arg" where
  "loc_Scripcode a label =
     (case map (\<lambda>(i, r). Scripcode r) (filter (\<lambda>(i, r). i = label) a) of
        [] \<Rightarrow> Inl (KeyError label)
      | [c] \<Rightarrow> Inr (Scalar c)
      | cs \<Rightarrow> Inr (SeriesOf cs))"

definition date_text :: "library \<Rightarrow> pydate \<Rightarrow> string" where
  "date_text lib d = (case d of PyStr t \<Rightarrow> t | _ \<Rightarrow> strftime_ymd lib d)"

text \<open>
  The loop over the stock list: one \<^verbatim>\<open>historical_data\<close> call per stock, its result handed
  to \<^verbatim>\<open>s1.save_historical_data\<close>. (The \<^verbatim>\<open>print\<close> of the symbol is left out.)
\<close>

fun download_loop ::
  "library \<Rightarrow> scrip_frame \<Rightarrow> string \<Rightarrow> string \<Rightarrow> string \<Rightarrow> ref list \<Rightarrow> Client5paisa \<Rightarrow> heap
     \<Rightarrow> (error + unit) \<times> Client5paisa \<times> heap" where
  "download_loop lib a interval start end' [] self h = (Inr (), self, h)"
| "download_loop lib a interval start end' (s1 # stocklist) self h =
     (case loc_Scripcode a (symbol (h s1)) of
        Inl e \<Rightarrow> (Inl e, self, h)
      | Inr code \<Rightarrow>
          (case historical_data lib self (exchange (h s1)) (exchange_type (h s1)) code
                  interval start end' of
             (Inl e, self') \<Rightarrow> (Inl e, self', h)
           | (Inr df, self') \<Rightarrow>
               (case save_historical_data lib (h s1) df interval of
                  Inl e \<Rightarrow> (Inl e, self', h)
                | Inr s1' \<Rightarrow>
                    download_loop lib a interval start end' stocklist self' (h(s1 := s1')))))"

definition download_historical_data ::
  "library \<Rightarrow> Client5paisa \<Rightarrow> ref list \<Rightarrow> string \<Rightarrow> pydate \<Rightarrow> pydate \<Rightarrow> heap
     \<Rightarrow> (error + unit) \<times> Client5paisa \<times> heap" where
  "download_historical_data lib self stocklist interval start end' h =
     (case check_scrip_master self of
        Inl e \<Rightarrow> (Inl e, self, h)
      | Inr ok \<Rightarrow>
          (case scrip_master_get_scrip self stocklist h of
             (Inl e, self1, h1) \<Rightarrow> (Inl e, self1, h1)
           | (Inr a, self1, h1) \<Rightarrow>
               download_loop lib a interval (date_text lib start) (date_text lib end')
                 stocklist self1 h1))"

subsection \<open>get\_market\_depth and get\_market\_feed\<close>

definition cell_text :: "string option \<Rightarrow> string" where
  "cell_text c = (case c of None \<Rightarrow> ''nan'' | Some t \<Rightarrow> t)"

text \<open>
  Assigning a scalar, or an array of values, to a column of a frame of JSON rows. A scalar
  assigned to a frame without rows gives a column without rows. An array assigned to a
  frame with rows raises unless it has as many values as the frame has rows; assigned to a
  frame without rows it gives the frame one row per value, the columns \<open>cols\<close> the frame
  already has filled with missing values.
\<close>

definition set_column :: "string \<Rightarrow> string \<Rightarrow> json_obj list \<Rightarrow> json_obj list" where
  "set_column k v d1 = map (AList.update k v) d1"

definition set_column_values ::
  "string list \<Rightarrow> string \<Rightarrow> string list \<Rightarrow> json_obj list \<Rightarrow> error + json_obj list" where
  "set_column_values cols k vs d1 =
     (if d1 = [] then Inr (map (\<lambda>v. AList.update k v (map (\<lambda>c. (c, ''NaT'')) cols)) vs)
      else if length vs \<noteq> length d1
      then Inl (ValueError ''Length of values does not match length of index'')
      else Inr (map (\<lambda>(v, row). AList.update k v row) (zip vs d1)))"

text \<open>
  The \<^verbatim>\<open>to_dict(orient="records")\<close> lists the three operations build from the scrip frame:
  exchange, exchange type and symbol (the first two renamed for the depth request), and
  exchange, exchange type and scrip code for the streaming request.
\<close>

definition depth_records :: "scrip_frame \<Rightarrow> json_obj list" where
  "depth_records a =
     map (\<lambda>(i, r). [(''Exchange'', cell_text (Exch r)),
                      (''ExchangeType'', cell_text (ExchType r)),
                      (''Symbol'', Symbol r)]) a"

definition feed_records :: "scrip_frame \<Rightarrow> json_obj list" where
  "feed_records a =
     map (\<lambda>(i, r). [(''Exch'', cell_text (Exch r)),
                      (''ExchType'', cell_text (ExchType r)),
                      (''Symbol'', Symbol r)]) a"

definition get_market_depth ::
  "library \<Rightarrow> Client5paisa \<Rightarrow> ref list \<Rightarrow> heap \<Rightarrow> (error + json_obj list) \<times> Client5paisa \<times> heap" where
  "get_market_depth lib self stocklist h =
     (case scrip_master_get_scrip self stocklist h of
        (Inl e, self1, h1) \<Rightarrow> (Inl e, self1, h1)
      | (Inr a, self1, h1) \<Rightarrow>
          (let syms = map (\<lambda>(i, r). Symbol r) a;
               a' = depth_records a;
               self2 = self1\<lparr>requests := requests self1 @ [FetchMarketDepthBySymbol a']\<rparr>
           in case fetch_market_depth_by_symbol lib a' of
                Inl e \<Rightarrow> (Inl e, self2, h1)
              | Inr rows \<Rightarrow>
                  (set_column_values [''Datetime''] ''Symbol'' syms
                     (set_column ''Datetime'' (now lib) rows),
                   self2, h1)))"

definition get_market_feed ::
  "library \<Rightarrow> Client5paisa \<Rightarrow> ref list \<Rightarrow> heap \<Rightarrow> (error + json_obj list) \<times> Client5paisa \<times> heap" where
  "get_market_feed lib self stocklist h =
     (case scrip_master_get_scrip self stocklist h of
        (Inl e, self1, h1) \<Rightarrow> (Inl e, self1, h1)
      | (Inr a, self1, h1) \<Rightarrow>
          (let a' = feed_records a;
               self2 = self1\<lparr>requests := requests self1 @ [FetchMarketFeed a']\<rparr>
           in case fetch_market_feed lib a' of
                Inl e \<Rightarrow> (Inl e, self2, h1)
              | Inr rows \<Rightarrow> (Inr (set_column ''Datetime'' (now lib) rows), self2, h1)))"

subsection \<open>get\_market\_data\<close>

definition scripcode_records :: "scrip_frame \<Rightarrow> json_obj list" where
  "scripcode_records a =
     map (\<lambda>(i, r). [(''Exch'', cell_text (Exch r)),
                      (''ExchType'', cell_text (ExchType r)),
                      (''ScripCode'', str_of_int (Scripcode r))]) a"

definition web_url1 :: "Client5paisa \<Rightarrow> string" where
  "web_url1 self =
     ''wss://openfeed.5paisa.com/Feeds/api/chat?Value1='' @ Jwt_token self @ ''|'' @ client_code self"

text \<open>
  The two receive loops: one \<^verbatim>\<open>recv()\<close> per entry of \<open>MarketFeedData\<close>, each message
  stripped of its first and last character (\<^verbatim>\<open>[1:-1]\<close>) and appended to \<open>d1\<close>. The
  arguments are the entries left, the messages the stream still delivers, \<open>d1\<close> and the
  stream's events. A \<^verbatim>\<open>recv()\<close> with no message left never returns: the result is \<open>None\<close>.
\<close>

fun recv_md ::
  "json_obj list \<Rightarrow> string list \<Rightarrow> string \<Rightarrow> ws_event list
     \<Rightarrow> (string \<times> string list \<times> ws_event list) option" where
  "recv_md [] inbound d1 ev = Some (d1, inbound, ev)"
| "recv_md (s # ss) [] d1 ev = None"
| "recv_md (s # ss) (m # inbound) d1 ev =
     recv_md ss inbound (d1 @ '',{'' @ butlast (tl m) @ ''}'') (ev @ [WsRecv])"

fun recv_mf ::
  "json_obj list \<Rightarrow> string list \<Rightarrow> string \<Rightarrow> ws_event list
     \<Rightarrow> (string \<times> string list \<times> ws_event list) option" where
  "recv_mf [] inbound d1 ev = Some (d1, inbound, ev)"
| "recv_mf (s # ss) [] d1 ev = None"
| "recv_mf (s # ss) (m # inbound) d1 ev =
     recv_mf ss inbound (d1 @ '','' @ butlast (tl m)) (ev @ [WsRecv])"

text \<open>
  \<^verbatim>\<open>get_market_data\<close>; \<open>None\<close> when a \<^verbatim>\<open>recv()\<close> blocks for ever. The two \<^verbatim>\<open>if\<close> statements
  on the feed type run one after the other, as in the source.
\<close>

definition get_market_data ::
  "library \<Rightarrow> Client5paisa \<Rightarrow> ref list \<Rightarrow> string \<Rightarrow> heap
     \<Rightarrow> ((error + json_obj list) \<times> Client5paisa \<times> heap) option" where
  "get_market_data lib self stocklist feed_type h =
     (case scrip_master_get_scrip self stocklist h of
        (Inl e, self1, h1) \<Rightarrow> Some (Inl e, self1, h1)
      | (Inr a, self1, h1) \<Rightarrow>
          (let a' = scripcode_records a
           in case Request_Feed lib feed_type ''s'' a' of
                Inl e \<Rightarrow> Some (Inl e, self1, h1)
              | Inr mf_list \<Rightarrow>
                  (case create_connection lib (web_url1 self1) of
                     Some e \<Rightarrow> Some (Inl e, self1, h1)
                   | None \<Rightarrow>
                       (let ev0 = ws_events self1 @ [WsConnect (web_url1 self1),
                                                      WsSend (json_dumps lib mf_list)];
                            inbound0 = ws_inbound lib (json_dumps lib mf_list)
                        in case (if feed_type = ''md''
                                 then recv_md (MarketFeedData mf_list) inbound0 [] ev0
                                 else Some ([], inbound0, ev0)) of
                             None \<Rightarrow> None
                           | Some (d1, inbound1, ev1) \<Rightarrow>
                               (case (if feed_type = ''mf''
                                      then recv_mf (MarketFeedData mf_list) inbound1 d1 ev1
                                      else Some (d1, inbound1, ev1)) of
                                  None \<Rightarrow> None
                                | Some (d1', inbound2, ev2) \<Rightarrow>
                                    (let self2 = self1\<lparr>ws_events := ev2 @ [WsClose]\<rparr>
                                     in Some (json_loads lib (''['' @ tl d1' @ '']''), self2, h1)))))))"

subsection \<open>Option expiries and option chains\<close>

text \<open>
  \<^verbatim>\<open>x.split("+")[0].split("(")[-1]\<close>: the text before the first plus sign, and of that the
  text after the last opening parenthesis.
\<close>

definition expiry_digits :: "string \<Rightarrow> string" where
  "expiry_digits x = rev (takeWhile (\<lambda>c. c \<noteq> CHR ''('') (rev (takeWhile (\<lambda>c. c \<noteq> CHR ''+'') x)))"

text \<open>
  The \<open>Timestamp\<close> column is computed for every row before the \<open>Date\<close> column is: the
  first pass pairs each \<open>ExpiryDate\<close> with its timestamp, the second adds the dates.
\<close>

fun expiry_timestamps :: "library \<Rightarrow> string list \<Rightarrow> error + (string \<times> int) list" where
  "expiry_timestamps lib [] = Inr []"
| "expiry_timestamps lib (x # xs) =
     (case py_int lib (expiry_digits x) of
        Inl e \<Rightarrow> Inl e
      | Inr ts \<Rightarrow>
          (case expiry_timestamps lib xs of
             Inl e \<Rightarrow> Inl e
           | Inr rs \<Rightarrow> Inr ((x, ts) # rs)))"

fun expiry_dates :: "library \<Rightarrow> (string \<times> int) list \<Rightarrow> error + expiry_row list" where
  "expiry_dates lib [] = Inr []"
| "expiry_dates lib ((x, ts) # rs) =
     (case date_fromtimestamp lib (ts div 1000) of
        Inl e \<Rightarrow> Inl e
      | Inr d \<Rightarrow>
          (case expiry_dates lib rs of
             Inl e \<Rightarrow> Inl e
           | Inr rs' \<Rightarrow> Inr (\<lparr>ExpiryDate = x, Timestamp = ts, Date = d\<rparr> # rs')))"

text \<open>
  The body shared by \<^verbatim>\<open>get_weekly_option_expiry\<close> and \<^verbatim>\<open>get_monthly_option_expiry\<close>, which
  differ in the symbol they ask for. A frame built from an empty list has no \<open>ExpiryDate\<close>
  column, and reading it raises KeyError.
\<close>

definition get_option_expiry ::
  "library \<Rightarrow> string \<Rightarrow> Client5paisa \<Rightarrow> (error + expiry_row list) \<times> Client5paisa" where
  "get_option_expiry lib name self =
     (let self1 = self\<lparr>requests := requests self @ [GetExpiry ''N'' name]\<rparr>
      in case get_expiry lib ''N'' name of
           Inl e \<Rightarrow> (Inl e, self1)
         | Inr xs \<Rightarrow>
             if xs = [] then (Inl (KeyError ''ExpiryDate''), self1)
             else (case expiry_timestamps lib xs of
                     Inl e \<Rightarrow> (Inl e, self1)
                   | Inr d1 \<Rightarrow> (expiry_dates lib d1, self1)))"

definition get_weekly_option_expiry ::
  "library \<Rightarrow> Client5paisa \<Rightarrow> (error + expiry_row list) \<times> Client5paisa" where
  "get_weekly_option_expiry lib self = get_option_expiry lib ''NIFTY'' self"

definition get_monthly_option_expiry ::
  "library \<Rightarrow> Client5paisa \<Rightarrow> (error + expiry_row list) \<times> Client5paisa" where
  "get_monthly_option_expiry lib self = get_option_expiry lib ''RELIANCE'' self"

text \<open>
  The \<^verbatim>\<open>except\<close> branch of \<^verbatim>\<open>get_option_chain\<close>: parse the date, fetch the expiry list,
  take the timestamp of the first expiry on that date (\<^verbatim>\<open>.iloc[0]\<close>, IndexError when there
  is none), fetch the chain, store it on the stock and return it.
\<close>

definition fetch_option_chain ::
  "library \<Rightarrow> Client5paisa \<Rightarrow> ref \<Rightarrow> pydate \<Rightarrow> heap
     \<Rightarrow> (error + json_obj list) \<times> Client5paisa \<times> heap" where
  "fetch_option_chain lib self stock expiry_date h =
     (case (case expiry_date of
              PyStr t \<Rightarrow> (case strptime_ymd lib t of Inl e \<Rightarrow> Inl e | Inr d \<Rightarrow> Inr (PyDate d))
            | _ \<Rightarrow> Inr expiry_date) of
        Inl e \<Rightarrow> (Inl e, self, h)
      | Inr expiry_date' \<Rightarrow>
          (case get_weekly_option_expiry lib self of
             (Inl e, self1) \<Rightarrow> (Inl e, self1, h)
           | (Inr d1, self1) \<Rightarrow>
               (case filter (\<lambda>r. PyDate (Date r) = expiry_date') d1 of
                  [] \<Rightarrow> (Inl (IndexError ''single positional indexer is out-of-bounds''), self1, h)
                | r # rs \<Rightarrow>
                    (let ts = Timestamp r;
                         self2 = self1\<lparr>requests := requests self1 @
                                   [GetOptionChain (exchange (h stock)) (symbol (h stock)) ts]\<rparr>
                     in case p5_get_option_chain lib (exchange (h stock)) (symbol (h stock)) ts of
                          Inl e \<Rightarrow> (Inl e, self2, h)
                        | Inr d2 \<Rightarrow>
                            (Inr d2, self2, h(stock := (h stock)\<lparr>option_chain := Some d2\<rparr>))))))"

text \<open>
  \<^verbatim>\<open>get_option_chain\<close>: with \<open>update\<close> the \<^verbatim>\<open>try\<close> block raises at once; without it the
  stock's \<open>option_chain\<close> attribute is returned, and reading it raises when it was never
  assigned. Either exception leads to the \<^verbatim>\<open>except\<close> branch.
\<close>

definition get_option_chain ::
  "library \<Rightarrow> Client5paisa \<Rightarrow> ref \<Rightarrow> pydate \<Rightarrow> bool \<Rightarrow> heap
     \<Rightarrow> (error + json_obj list) \<times> Client5paisa \<times> heap" where
  "get_option_chain lib self stock expiry_date update h =
     (if update then fetch_option_chain lib self stock expiry_date h
      else (case option_chain (h stock) of
              Some d \<Rightarrow> (Inr d, self, h)
            | None \<Rightarrow> fetch_option_chain lib self stock expiry_date h))"

text \<open>
  The calendar day an \<open>expiry_date\<close> argument stands for: a string that \<^verbatim>\<open>strptime\<close> parses
  to that day, or that \<^verbatim>\<open>date\<close> itself. A \<^verbatim>\<open>datetime\<close> stands for no day, since it equals
  no entry of the \<open>Date\<close> column.
\<close>

definition expiry_day :: "library \<Rightarrow> pydate \<Rightarrow> date \<Rightarrow> bool" where
  "expiry_day lib expiry_date day \<longleftrightarrow>
     (case expiry_date of
        PyStr t \<Rightarrow> strptime_ymd lib t = Inr day
      | PyDate d \<Rightarrow> d = day
      | PyDatetime ts \<Rightarrow> False)"

section \<open>Sample data\<close>

text \<open>
  A small table, three stocks and a library with fixed replies, on which the theorems
  below are instantiated.
\<close>

definition sample_row :: "string \<Rightarrow> string \<Rightarrow> int \<Rightarrow> table_row" where
  "sample_row name series code =
     \<lparr>Exch = Some ''N'', ExchType = Some ''C'', Symbol = name, Name = name,
      Series = Some series, Scripcode = code, Expiry = None\<rparr>"

definition sample_master :: ScripMaster where
  "sample_master =
     \<lparr>data = [sample_row ''RELIANCE'' ''EQ'' 2885, sample_row ''TCS'' ''EQ'' 11536,
              sample_row ''TCS'' ''BE'' 11537]\<rparr>"

definition sample_master_two_series :: ScripMaster where
  "sample_master_two_series =
     \<lparr>data = [sample_row ''RELIANCE'' ''EQ'' 2885, sample_row ''RELIANCE'' ''XX'' 500325]\<rparr>"

definition sample_stock :: "string \<Rightarrow> Stock" where
  "sample_stock name =
     \<lparr>symbol = name, exchange = ''N'', exchange_type = ''C'', scrip = None, option_chain = None\<rparr>"

definition sample_heap :: heap where
  "sample_heap =
     (\<lambda>r. if r = 0 then sample_stock ''RELIANCE''
          else if r = 1 then sample_stock ''TCS''
          else sample_stock ''NOSUCH'')"

definition sample_heap_unlisted :: heap where
  "sample_heap_unlisted =
     (\<lambda>r. if r = 0 then sample_stock ''RELIANCE''
          else if r = 1 then sample_stock ''AAA''
          else sample_stock ''BBB'')"

definition sample_csv :: "csv_row list" where
  "sample_csv =
     [\<lparr>Exch = Some ''N'', ExchType = Some ''C'', Symbol = Some ''x'', Name = Some ''Reliance'',
       Series = Some ''EQ'', Scripcode = 2885, Expiry = None\<rparr>,
      \<lparr>Exch = Some ''N'', ExchType = Some ''D'', Symbol = None, Name = Some ''nifty 30 Mar 2023'',
       Series = Some ''XX'', Scripcode = 57919, Expiry = Some ''2023-03-30 14:30:00''\<rparr>]"

definition sample_pandas :: pandas where
  "sample_pandas =
     \<lparr>read_csv = (\<lambda>path index_col0. Inr sample_csv),
      to_datetime_fmt = (\<lambda>t. if t = ''2023-03-30 14:30:00'' then Some (2023, 3, 30, 14, 30, 0)
                              else None)\<rparr>"

definition sample_chain :: "json_obj list" where
  "sample_chain = [[(''CPType'', ''CE''), (''StrikeRate'', ''18000'')]]"

definition sample_library :: library where
  "sample_library =
     \<lparr>HISTORICAL_DATA_ROUTE = ''https://openapi.5paisa.com/historical/'',
      session_get = (\<lambda>url headers. Inr []),
      fetch_market_depth_by_symbol = (\<lambda>a. Inr []),
      fetch_market_feed = (\<lambda>a. Inr []),
      Request_Feed = (\<lambda>method operation a.
         Inr \<lparr>Method = method, Operation = operation, MarketFeedData = a\<rparr>),
      get_expiry = (\<lambda>exch name. Inr [''/Date(1672338600000+0530)/'']),
      p5_get_option_chain = (\<lambda>exch name ts. Inr sample_chain),
      create_connection = (\<lambda>url. None),
      ws_inbound = (\<lambda>payload. []),
      json_dumps = (\<lambda>payload. ''{}''),
      json_loads = (\<lambda>t. if t = ''[]'' then Inr [] else Inl (LibraryError ''json'')),
      now = ''2023-01-02 09:15:00'',
      to_datetime = (\<lambda>t. Inl (ValueError ''unknown datetime string format'')),
      strftime_ymd = (\<lambda>d. ''2023-01-01''),
      strptime_ymd = (\<lambda>t. if t = ''2022-12-29'' then Inr (2022, 12, 29)
                           else Inl (ValueError ''time data does not match format'')),
      date_fromtimestamp = (\<lambda>t. Inr (2022, 12, 29)),
      py_int = (\<lambda>t. if t = ''1672338600000'' then Inr 1672338600000
                     else Inl (ValueError ''invalid literal for int'')),
      series_str = (\<lambda>cs. ''Series''),
      save_historical_data = (\<lambda>s df interval. Inr s)\<rparr>"

definition sample_client :: Client5paisa where
  "sample_client =
     \<lparr>scrip_master = Some sample_master, jwt_headers = [], client_code = ''C0001'',
      Jwt_token = ''token'', requests = [], ws_events = []\<rparr>"

section \<open>Lemmas about get\_scrip\<close>

lemma upper_char_idem: "upper_char (upper_char c) = upper_char c"
  by (simp add: upper_char_def)

lemma str_upper_idem: "str_upper (str_upper s) = str_upper s"
  by (simp add: str_upper_def upper_char_idem)

lemma get_scrip_loop_append:
  "get_scrip_loop self (xs @ ys) ls1 h =
     (case get_scrip_loop self xs ls1 h of
        (Inl e, h') \<Rightarrow> (Inl e, h')
      | (Inr ls, h') \<Rightarrow> get_scrip_loop self ys ls h')"
  by (induction xs arbitrary: ls1 h) (simp_all add: Let_def split: option.splits)

lemma f1_f2_scrip_update [simp]: "f1_f2 (s\<lparr>scrip := x\<rparr>) = f1_f2 s"
  by (rule ext) (simp add: f1_f2_def)

text \<open>
  When no stock of the list is unresolved the loop collects one frame per stock and leaves
  every stock of the list with its frame cached.
\<close>

lemma get_scrip_loop_resolved:
  "list_all (\<lambda>r. \<not> unresolved self (h r)) rs \<Longrightarrow>
   get_scrip_loop self rs ls1 h =
     (Inr (ls1 @ map (\<lambda>r. resolved_frame self (h r)) rs), cache_stocks self rs h)"
proof (induction rs arbitrary: ls1 h)
  case Nil
  show ?case by (simp add: cache_stocks_def)
next
  case (Cons s1 rs)
  show ?case
  proof (cases "scrip (h s1)")
    case (Some d)
    have same: "cache_stocks self (s1 # rs) h = cache_stocks self rs h"
      using Some by (auto simp: cache_stocks_def resolved_frame_def fun_eq_iff)
    from Cons.prems have "list_all (\<lambda>r. \<not> unresolved self (h r)) rs" by simp
    from Cons.IH [OF this] Some same show ?thesis
      by (simp add: resolved_frame_def)
  next
    case None
    define d2' where "d2' = set_index_Name (filter (f1_f2 (h s1)) (data self))"
    define h1 where "h1 = h(s1 := (h s1)\<lparr>scrip := Some d2'\<rparr>)"
    from Cons.prems None have ne: "filter (f1_f2 (h s1)) (data self) \<noteq> []"
      by (simp add: unresolved_def)
    have rf: "resolved_frame self (h1 r) = resolved_frame self (h r)" for r
      using None by (simp add: h1_def resolved_frame_def d2'_def)
    have un: "unresolved self (h1 r) = unresolved self (h r)" for r
      using None ne by (simp add: h1_def unresolved_def)
    from Cons.prems have "list_all (\<lambda>r. \<not> unresolved self (h1 r)) rs"
      by (simp add: un)
    from Cons.IH [OF this]
    have step: "get_scrip_loop self rs (ls1 @ [d2']) h1 =
        (Inr ((ls1 @ [d2']) @ map (\<lambda>r. resolved_frame self (h r)) rs), cache_stocks self rs h1)"
      by (simp add: rf)
    have heap: "cache_stocks self rs h1 = cache_stocks self (s1 # rs) h"
      using None
      by (auto simp: cache_stocks_def fun_eq_iff rf) (auto simp: h1_def resolved_frame_def d2'_def)
    have "resolved_frame self (h s1) = d2'"
      using None by (simp add: resolved_frame_def d2'_def)
    with None ne step heap show ?thesis
      by (simp add: Let_def d2'_def [symmetric] h1_def [symmetric])
  qed
qed

text \<open>The loop stops at the first unresolved stock, with the stocks before it cached.\<close>

lemma get_scrip_loop_unresolved:
  assumes pre: "list_all (\<lambda>r. \<not> unresolved self (h r)) pre"
    and u: "unresolved self (h u)"
  shows "get_scrip_loop self (pre @ u # post) ls1 h =
     (Inl (no_scrip_found (symbol (h u))), cache_stocks self pre h)"
proof -
  from pre u have "u \<notin> set pre" by (auto simp: list_all_iff)
  then have hu: "cache_stocks self pre h u = h u" by (simp add: cache_stocks_def)
  from u have "unresolved self (cache_stocks self pre h u)" by (simp add: hu)
  then show ?thesis
    by (simp add: get_scrip_loop_append get_scrip_loop_resolved [OF pre] unresolved_def hu)
qed

lemma find_unresolved_split:
  assumes "find P xs = Some u"
  shows "\<exists>pre post. xs = pre @ u # post \<and> list_all (\<lambda>r. \<not> P r) pre \<and> P u"
proof -
  from assms obtain i where i: "i < length xs" "P (xs ! i)" "u = xs ! i" "\<forall>j<i. \<not> P (xs ! j)"
    by (auto simp: find_Some_iff)
  have "xs = take i xs @ u # drop (Suc i) xs"
    using i by (simp add: id_take_nth_drop)
  moreover have "list_all (\<lambda>r. \<not> P r) (take i xs)"
    using i by (auto simp: list_all_iff in_set_conv_nth)
  ultimately show ?thesis using i by blast
qed

lemma get_scrip_resolved:
  assumes "list_all (\<lambda>r. \<not> unresolved self (h r)) rs"
  shows "get_scrip self rs h =
     (pd_concat (map (\<lambda>r. resolved_frame self (h r)) rs), self, cache_stocks self rs h)"
  by (simp add: get_scrip_def get_scrip_loop_resolved [OF assms])

lemma get_scrip_unresolved:
  assumes "list_all (\<lambda>r. \<not> unresolved self (h r)) pre" and "unresolved self (h u)"
  shows "get_scrip self (pre @ u # post) h =
     (Inl (no_scrip_found (symbol (h u))), self, cache_stocks self pre h)"
  by (simp add: get_scrip_def get_scrip_loop_unresolved [OF assms])

lemma get_scrip_first_unresolved:
  assumes "find (\<lambda>r. unresolved self (h r)) stocklist = Some u"
  shows "fst (get_scrip self stocklist h) = Inl (no_scrip_found (symbol (h u)))"
proof -
  from find_unresolved_split [OF assms] obtain pre post where
    "stocklist = pre @ u # post" "list_all (\<lambda>r. \<not> unresolved self (h r)) pre"
    "unresolved self (h u)" by blast
  then show ?thesis by (simp add: get_scrip_unresolved)
qed

lemma sample_unresolved:
  "unresolved sample_master (sample_heap r) \<longleftrightarrow> r \<noteq> 0 \<and> r \<noteq> 1"
  by (simp add: unresolved_def sample_master_def sample_heap_def sample_stock_def
      sample_row_def f1_f2_def)

lemma sample_filter_0:
  "filter (f1_f2 (sample_heap 0)) (data sample_master) = [sample_row ''RELIANCE'' ''EQ'' 2885]"
  by (simp add: sample_master_def sample_heap_def sample_stock_def sample_row_def f1_f2_def)

lemma cache_stocks_cached:
  assumes "list_all (\<lambda>r. scrip (h r) \<noteq> None) rs"
  shows "cache_stocks self rs h = h"
  using assms by (auto simp: cache_stocks_def resolved_frame_def list_all_iff fun_eq_iff)

lemma cached_not_unresolved:
  "list_all (\<lambda>r. scrip (h r) \<noteq> None) rs \<Longrightarrow> list_all (\<lambda>r. \<not> unresolved self (h r)) rs"
  by (auto simp: list_all_iff unresolved_def)

lemma get_scrip_Inr_resolved:
  assumes "get_scrip self rs h = (Inr a, self', h')"
  shows "list_all (\<lambda>r. \<not> unresolved self (h r)) rs"
proof (cases "find (\<lambda>r. unresolved self (h r)) rs")
  case None
  then show ?thesis by (auto simp: find_None_iff list_all_iff)
next
  case (Some u)
  from get_scrip_first_unresolved [OF Some] assms show ?thesis by simp
qed

lemma get_scrip_single:
  assumes "scrip (h s) = None"
  shows "fst (get_scrip self [s] h) =
     (if filter (f1_f2 (h s)) (data self) = [] then Inl (no_scrip_found (symbol (h s)))
      else Inr (set_index_Name (filter (f1_f2 (h s)) (data self))))"
  using assms by (simp add: get_scrip_def Let_def pd_concat_def)

section \<open>Lemmas about loading\<close>

lemma load_columns:
  "parse_expiry_column pd raw = Inr d1 \<Longrightarrow> upper_name_column d1 = Inr d2 \<Longrightarrow>
   list_all2 (loaded_row pd) raw d2"
proof (induction raw arbitrary: d1 d2)
  case Nil
  then show ?case by simp
next
  case (Cons r rs)
  from Cons.prems(1) obtain t rs1 where
    t: "(case Expiry r of
              None \<Rightarrow> Inr None
            | Some s \<Rightarrow>
                (case to_datetime_fmt pd s of
                   None \<Rightarrow> Inl (ValueError ''time data does not match format'')
                 | Some t \<Rightarrow> Inr (Some t))) = Inr t"
    and rs1: "parse_expiry_column pd rs = Inr rs1"
    and d1: "d1 = \<lparr>Exch = Exch r, ExchType = ExchType r, Symbol = Symbol r, Name = Name r,
                      Series = Series r, Scripcode = Scripcode r, Expiry = t\<rparr> # rs1"
    by (auto split: sum.splits)
  from Cons.prems(2) d1 obtain n rs2 where n: "Name r = Some n"
    and rs2: "upper_name_column rs1 = Inr rs2"
    and d2: "d2 = \<lparr>Exch = Exch r, ExchType = ExchType r, Symbol = str_upper n,
                      Name = str_upper n, Series = Series r, Scripcode = Scripcode r,
                      Expiry = t\<rparr> # rs2"
    by (auto split: sum.splits option.splits)
  have "loaded_row pd r \<lparr>Exch = Exch r, ExchType = ExchType r, Symbol = str_upper n,
                      Name = str_upper n, Series = Series r, Scripcode = Scripcode r,
                      Expiry = t\<rparr>"
  proof (cases "Expiry r")
    case None
    with t n show ?thesis by (auto simp: loaded_row_def)
  next
    case (Some s)
    with t obtain ts where "to_datetime_fmt pd s = Some ts" "t = Some ts"
      by (cases "to_datetime_fmt pd s") auto
    with Some n show ?thesis by (simp add: loaded_row_def)
  qed
  with Cons.IH [OF rs1 rs2] show ?case by (simp add: d2)
qed

lemma parse_expiry_column_total:
  "list_all (\<lambda>r. case Expiry r of None \<Rightarrow> True | Some t \<Rightarrow> to_datetime_fmt pd t \<noteq> None) raw \<Longrightarrow>
   \<exists>d1. parse_expiry_column pd raw = Inr d1 \<and> map Name d1 = map Name raw"
  by (induction raw) (auto split: option.splits)

lemma upper_name_column_total:
  "list_all (\<lambda>n. n \<noteq> None) (map Name d1) \<Longrightarrow> \<exists>d2. upper_name_column d1 = Inr d2"
  by (induction d1) (auto split: option.splits)

section \<open>The symbol table is only read\<close>

lemma get_scrip_keeps_self: "fst (snd (get_scrip self stocklist h)) = self"
  by (simp add: get_scrip_def split: prod.splits sum.splits)

lemma scrip_master_get_scrip_keeps:
  "scrip_master (fst (snd (scrip_master_get_scrip c stocklist h))) = scrip_master c"
proof (cases "scrip_master c")
  case None
  then show ?thesis by (simp add: scrip_master_get_scrip_def)
next
  case (Some sm)
  obtain res sm' h' where g: "get_scrip sm stocklist h = (res, sm', h')"
    by (cases "get_scrip sm stocklist h") auto
  with get_scrip_keeps_self [of sm stocklist h] have "sm' = sm" by simp
  with Some g show ?thesis by (simp add: scrip_master_get_scrip_def)
qed

lemma historical_data_keeps:
  "scrip_master (snd (historical_data lib c exch seg code time from to)) = scrip_master c"
  by (simp add: historical_data_def Let_def split: sum.splits)

lemma download_loop_keeps:
  "scrip_master (fst (snd (download_loop lib a interval start end' stocklist c h))) = scrip_master c"
proof (induction stocklist arbitrary: c h)
  case Nil
  show ?case by simp
next
  case (Cons s1 stocklist)
  show ?case
  proof (cases "loc_Scripcode a (symbol (h s1))")
    case (Inl e)
    then show ?thesis by simp
  next
    case (Inr code)
    obtain res c' where hd: "historical_data lib c (exchange (h s1)) (exchange_type (h s1)) code
        interval start end' = (res, c')"
      by (cases "historical_data lib c (exchange (h s1)) (exchange_type (h s1)) code interval start end'") auto
    with historical_data_keeps [of lib c "exchange (h s1)" "exchange_type (h s1)" code interval start end']
    have c': "scrip_master c' = scrip_master c" by simp
    show ?thesis
      using Inr hd c' Cons.IH by (simp split: sum.splits)
  qed
qed

lemma download_historical_data_keeps:
  "scrip_master (fst (snd (download_historical_data lib c stocklist interval start end' h))) = scrip_master c"
proof -
  obtain res c1 h1 where g: "scrip_master_get_scrip c stocklist h = (res, c1, h1)"
    by (cases "scrip_master_get_scrip c stocklist h") auto
  with scrip_master_get_scrip_keeps [of c stocklist h] have "scrip_master c1 = scrip_master c" by simp
  with g show ?thesis
    by (simp add: download_historical_data_def download_loop_keeps split: sum.splits)
qed

lemma get_market_depth_keeps:
  "scrip_master (fst (snd (get_market_depth lib c stocklist h))) = scrip_master c"
proof -
  obtain res c1 h1 where g: "scrip_master_get_scrip c stocklist h = (res, c1, h1)"
    by (cases "scrip_master_get_scrip c stocklist h") auto
  with scrip_master_get_scrip_keeps [of c stocklist h] have "scrip_master c1 = scrip_master c" by simp
  with g show ?thesis
    by (simp add: get_market_depth_def Let_def split: sum.splits)
qed

lemma get_market_feed_keeps:
  "scrip_master (fst (snd (get_market_feed lib c stocklist h))) = scrip_master c"
proof -
  obtain res c1 h1 where g: "scrip_master_get_scrip c stocklist h = (res, c1, h1)"
    by (cases "scrip_master_get_scrip c stocklist h") auto
  with scrip_master_get_scrip_keeps [of c stocklist h] have "scrip_master c1 = scrip_master c" by simp
  with g show ?thesis
    by (simp add: get_market_feed_def Let_def split: sum.splits)
qed

lemma get_market_data_keeps:
  "(case get_market_data lib c stocklist feed_type h of
      None \<Rightarrow> True
    | Some (res, c', h') \<Rightarrow> scrip_master c' = scrip_master c)"
proof -
  obtain res c1 h1 where g: "scrip_master_get_scrip c stocklist h = (res, c1, h1)"
    by (cases "scrip_master_get_scrip c stocklist h") auto
  with scrip_master_get_scrip_keeps [of c stocklist h] have "scrip_master c1 = scrip_master c" by simp
  with g show ?thesis
    by (simp add: get_market_data_def Let_def split: sum.splits option.splits prod.splits)
qed

lemma get_option_chain_keeps:
  "scrip_master (fst (snd (get_option_chain lib c stock expiry_date update h))) = scrip_master c"
  by (simp add: get_option_chain_def fetch_option_chain_def get_weekly_option_expiry_def
      get_option_expiry_def Let_def
      split: sum.splits option.splits prod.splits list.splits pydate.splits)

section \<open>Lemmas about the client\<close>

lemma scrip_master_get_scrip_resolved:
  assumes "scrip_master self = Some sm" and "stocklist \<noteq> []"
    and "list_all (\<lambda>r. \<not> unresolved sm (h r)) stocklist"
  shows "scrip_master_get_scrip self stocklist h =
     (Inr (concat (map (\<lambda>r. resolved_frame sm (h r)) stocklist)), self, cache_stocks sm stocklist h)"
proof -
  from assms(1) have "self\<lparr>scrip_master := Some sm\<rparr> = self" by simp
  with assms show ?thesis
    by (simp add: scrip_master_get_scrip_def get_scrip_resolved pd_concat_def)
qed

lemma get_weekly_option_expiry_requests:
  "snd (get_weekly_option_expiry lib self) = self\<lparr>requests := requests self @ [GetExpiry ''N'' ''NIFTY'']\<rparr>"
  by (simp add: get_weekly_option_expiry_def get_option_expiry_def Let_def split: sum.splits)

lemma fetch_option_chain_requests:
  assumes "expiry_day lib expiry_date day"
  shows "\<exists>rest. requests (fst (snd (fetch_option_chain lib self stock expiry_date h))) =
     requests self @ GetExpiry ''N'' ''NIFTY'' # rest"
proof -
  obtain res self1 where w: "get_weekly_option_expiry lib self = (res, self1)"
    by (cases "get_weekly_option_expiry lib self") auto
  with get_weekly_option_expiry_requests [of lib self]
  have s1: "self1 = self\<lparr>requests := requests self @ [GetExpiry ''N'' ''NIFTY'']\<rparr>" by simp
  from assms w show ?thesis
    by (cases expiry_date)
       (auto simp: fetch_option_chain_def expiry_day_def s1 Let_def split: sum.splits list.splits)
qed

lemma fetch_option_chain_Inr:
  assumes "fetch_option_chain lib self stock expiry_date h = (Inr d2, self', h')"
  shows "\<exists>ts. p5_get_option_chain lib (exchange (h stock)) (symbol (h stock)) ts = Inr d2 \<and>
          requests self' = requests self @
            [GetExpiry ''N'' ''NIFTY'', GetOptionChain (exchange (h stock)) (symbol (h stock)) ts] \<and>
          h' = h(stock := (h stock)\<lparr>option_chain := Some d2\<rparr>)"
proof -
  obtain res self1 where w: "get_weekly_option_expiry lib self = (res, self1)"
    by (cases "get_weekly_option_expiry lib self") auto
  with get_weekly_option_expiry_requests [of lib self]
  have s1: "self1 = self\<lparr>requests := requests self @ [GetExpiry ''N'' ''NIFTY'']\<rparr>" by simp
  from assms w show ?thesis
    by (auto simp: fetch_option_chain_def s1 Let_def
        split: sum.splits list.splits pydate.splits)
qed

lemma fetch_option_chain_success:
  assumes "expiry_day lib expiry_date day"
    and "fst (get_weekly_option_expiry lib self) = Inr d1"
    and "filter (\<lambda>r. Date r = day) d1 = r # rs"
    and "p5_get_option_chain lib (exchange (h stock)) (symbol (h stock)) (Timestamp r) = Inr d2"
  shows "fetch_option_chain lib self stock expiry_date h =
     (Inr d2,
      self\<lparr>requests := requests self @
        [GetExpiry ''N'' ''NIFTY'',
         GetOptionChain (exchange (h stock)) (symbol (h stock)) (Timestamp r)]\<rparr>,
      h(stock := (h stock)\<lparr>option_chain := Some d2\<rparr>))"
proof -
  from assms(2) get_weekly_option_expiry_requests [of lib self]
  have w: "get_weekly_option_expiry lib self =
      (Inr d1, self\<lparr>requests := requests self @ [GetExpiry ''N'' ''NIFTY'']\<rparr>)"
    by (cases "get_weekly_option_expiry lib self") auto
  from assms(1,3,4) show ?thesis
    by (cases expiry_date) (simp_all add: fetch_option_chain_def expiry_day_def w Let_def)
qed

lemma sample_expiry:
  "fst (get_weekly_option_expiry sample_library sample_client) =
     Inr [\<lparr>ExpiryDate = ''/Date(1672338600000+0530)/'', Timestamp = 1672338600000,
           Date = (2022, 12, 29)\<rparr>]"
  by (simp add: get_weekly_option_expiry_def get_option_expiry_def sample_library_def
      expiry_digits_def Let_def)

section \<open>Batch resolution aborts on an unresolved stock\<close>

lemma sample_unlisted_unresolved:
  "unresolved sample_master (sample_heap_unlisted r) \<longleftrightarrow> r \<noteq> 0"
  by (simp add: unresolved_def sample_master_def sample_heap_unlisted_def sample_stock_def
      sample_row_def f1_f2_def)

text \<open>
  Claim C1, as stated: if some stock of the list has no cached scrip and no matching row,
  \<^verbatim>\<open>get_scrip\<close> raises a ValueError whose message names that stock's symbol. It does not
  when an unresolved stock comes earlier in the list: with the stocks AAA and BBB, both
  absent from the table, the hypothesis holds for BBB, and the message names AAA.
\<close>

theorem get_scrip_names_first_counterexample:
  "2 \<in> set [1, 2::nat] \<and>
   unresolved sample_master (sample_heap_unlisted 2) \<and>
   symbol (sample_heap_unlisted 2) = ''BBB'' \<and>
   fst (get_scrip sample_master [1, 2] sample_heap_unlisted) =
     Inl (ValueError ''No Scrip found for AAA in scrip_master'') \<and>
   fst (get_scrip sample_master [1, 2] sample_heap_unlisted) \<noteq>
     Inl (ValueError ''No Scrip found for BBB in scrip_master'')"
proof -
  have f: "find (\<lambda>r. unresolved sample_master (sample_heap_unlisted r)) [1, 2] = Some 1"
    by (simp add: sample_unlisted_unresolved)
  have s: "symbol (sample_heap_unlisted 1) = ''AAA''" "symbol (sample_heap_unlisted 2) = ''BBB''"
    by (simp_all add: sample_heap_unlisted_def sample_stock_def)
  from get_scrip_first_unresolved [OF f] s show ?thesis
    by (simp add: sample_unlisted_unresolved no_scrip_found_def)
qed

text \<open>
  Claim C1, amended. For every list of stocks, if some stock \<open>s\<close> of the list has no cached
  scrip and no row of the table matches its exchange, exchange type and symbol with series
  EQ or XX, then \<^verbatim>\<open>get_scrip\<close> raises the ValueError
  \<^verbatim>\<open>No Scrip found for <symbol> in scrip_master\<close> whose symbol is that of the first such
  stock \<open>u\<close> of the list (the stocks \<open>pre\<close> before it are all resolved), and the call returns
  no frame for any stock of the list.
\<close>

theorem get_scrip_unresolved_raises:
  assumes "s \<in> set stocklist" and "unresolved self (h s)"
  shows "\<exists>pre u post.
           stocklist = pre @ u # post \<and>
           list_all (\<lambda>r. \<not> unresolved self (h r)) pre \<and>
           unresolved self (h u) \<and>
           find (\<lambda>r. unresolved self (h r)) stocklist = Some u \<and>
           fst (get_scrip self stocklist h) =
             Inl (ValueError (''No Scrip found for '' @ symbol (h u) @ '' in scrip_master''))"
proof -
  from assms obtain u where u: "find (\<lambda>r. unresolved self (h r)) stocklist = Some u"
    by (cases "find (\<lambda>r. unresolved self (h r)) stocklist") (auto simp: find_None_iff)
  from find_unresolved_split [OF u] obtain pre post where
    "stocklist = pre @ u # post" "list_all (\<lambda>r. \<not> unresolved self (h r)) pre"
    "unresolved self (h u)" by blast
  with u get_scrip_first_unresolved [OF u] show ?thesis
    by (auto simp: no_scrip_found_def)
qed

theorem get_scrip_unresolved_raises_witness:
  "2 \<in> set [0, 1, 2::nat] \<and> unresolved sample_master (sample_heap_unlisted 2) \<and>
   find (\<lambda>r. unresolved sample_master (sample_heap_unlisted r)) [0, 1, 2] = Some 1 \<and>
   fst (get_scrip sample_master [0, 1, 2] sample_heap_unlisted) =
     Inl (ValueError ''No Scrip found for AAA in scrip_master'')"
proof -
  have a: "2 \<in> set [0, 1, 2::nat]" by simp
  have b: "unresolved sample_master (sample_heap_unlisted 2)"
    by (simp add: sample_unlisted_unresolved)
  have f: "find (\<lambda>r. unresolved sample_master (sample_heap_unlisted r)) [0, 1, 2] = Some 1"
    by (simp add: sample_unlisted_unresolved)
  have s: "symbol (sample_heap_unlisted 1) = ''AAA''"
    by (simp add: sample_heap_unlisted_def sample_stock_def)
  from get_scrip_unresolved_raises [of 2 "[0, 1, 2]" sample_master sample_heap_unlisted] a b
  obtain u where
    "find (\<lambda>r. unresolved sample_master (sample_heap_unlisted r)) [0, 1, 2] = Some u"
    "fst (get_scrip sample_master [0, 1, 2] sample_heap_unlisted) =
       Inl (ValueError (''No Scrip found for '' @ symbol (sample_heap_unlisted u) @ '' in scrip_master''))"
    by blast
  with f s have "fst (get_scrip sample_master [0, 1, 2] sample_heap_unlisted) =
     Inl (ValueError ''No Scrip found for AAA in scrip_master'')"
    by simp
  with a b f show ?thesis by simp
qed

section \<open>A failed batch keeps the caches it made\<close>

text \<open>
  Claim C9. When \<^verbatim>\<open>get_scrip\<close> raises at the unresolved stock \<open>u\<close>, the stocks \<open>pre\<close> before
  it in the list were all resolved, and the heap the call leaves is \<open>cache_stocks self pre h\<close>:
  every stock of \<open>pre\<close> that had no cached scrip now carries the frame that was selected for
  it from the table. Nothing is rolled back.
\<close>

theorem get_scrip_failure_keeps_caches:
  assumes "list_all (\<lambda>r. \<not> unresolved self (h r)) pre" and "unresolved self (h u)"
  shows "get_scrip self (pre @ u # post) h =
           (Inl (no_scrip_found (symbol (h u))), self, cache_stocks self pre h) \<and>
         list_all (\<lambda>r. scrip (h r) = None \<longrightarrow>
                     scrip (cache_stocks self pre h r) =
                       Some (set_index_Name (filter (f1_f2 (h r)) (data self)))) pre"
  using get_scrip_unresolved [OF assms, of post]
  by (simp add: list_all_iff cache_stocks_def resolved_frame_def)

theorem get_scrip_failure_keeps_caches_witness:
  "list_all (\<lambda>r. \<not> unresolved sample_master (sample_heap r)) [0] \<and>
   unresolved sample_master (sample_heap 2) \<and>
   fst (get_scrip sample_master [0, 2, 1] sample_heap) =
     Inl (ValueError ''No Scrip found for NOSUCH in scrip_master'') \<and>
   scrip (sample_heap 0) = None \<and>
   scrip (snd (snd (get_scrip sample_master [0, 2, 1] sample_heap)) 0) =
     Some [(''RELIANCE'', sample_row ''RELIANCE'' ''EQ'' 2885)]"
proof -
  have a: "list_all (\<lambda>r. \<not> unresolved sample_master (sample_heap r)) [0]"
    by (simp add: sample_unresolved)
  have b: "unresolved sample_master (sample_heap 2)"
    by (simp add: sample_unresolved)
  have c: "scrip (sample_heap 0) = None" "symbol (sample_heap 2) = ''NOSUCH''"
    by (simp_all add: sample_heap_def sample_stock_def)
  from get_scrip_failure_keeps_caches [OF a b, of "[1]"] a b c show ?thesis
    by (simp add: sample_filter_0 set_index_Name_def no_scrip_found_def sample_row_def)
qed

section \<open>Cached scrips answer repeat lookups\<close>

text \<open>
  Claim C7. A stock that carries a cached scrip contributes that cached frame to the result
  of \<^verbatim>\<open>get_scrip\<close>: when every stock of a non-empty list is cached the result is the
  concatenation of the cached frames, whatever the table holds, and the heap is unchanged;
  in general the result has the cached frame at each cached stock and the filtered table
  rows at each other one. After a successful call every stock of the list is cached, and
  resolving the same list again returns the same frame, even against another table
  \<open>other\<close>: the second call reads the caches only.
\<close>

theorem get_scrip_answers_from_cache:
  "(stocklist \<noteq> [] \<and> list_all (\<lambda>r. scrip (h r) = Some (c r)) stocklist \<longrightarrow>
      get_scrip self stocklist h = (Inr (concat (map c stocklist)), self, h)) \<and>
   (get_scrip self stocklist h = (Inr a, self', h') \<longrightarrow>
      a = concat (map (\<lambda>r. case scrip (h r) of
                               Some d \<Rightarrow> d
                             | None \<Rightarrow> set_index_Name (filter (f1_f2 (h r)) (data self)))
                    stocklist) \<and>
      list_all (\<lambda>r. scrip (h' r) \<noteq> None) stocklist \<and>
      get_scrip other stocklist h' = (Inr a, other, h'))"
proof (intro conjI impI)
  assume A: "stocklist \<noteq> [] \<and> list_all (\<lambda>r. scrip (h r) = Some (c r)) stocklist"
  then have cached: "list_all (\<lambda>r. scrip (h r) \<noteq> None) stocklist"
    by (auto simp: list_all_iff)
  have eq: "map (\<lambda>r. resolved_frame self (h r)) stocklist = map c stocklist"
    using A by (auto simp: list_all_iff resolved_frame_def)
  from A show "get_scrip self stocklist h = (Inr (concat (map c stocklist)), self, h)"
    by (simp add: eq get_scrip_resolved [OF cached_not_unresolved [OF cached]]
        cache_stocks_cached [OF cached] pd_concat_def)
next
  assume B: "get_scrip self stocklist h = (Inr a, self', h')"
  note res = get_scrip_Inr_resolved [OF B]
  from B have ne: "stocklist \<noteq> []"
    and a: "a = concat (map (\<lambda>r. resolved_frame self (h r)) stocklist)"
    and h': "h' = cache_stocks self stocklist h"
    by (auto simp: get_scrip_resolved [OF res] pd_concat_def split: if_splits)
  show "a = concat (map (\<lambda>r. case scrip (h r) of
                               Some d \<Rightarrow> d
                             | None \<Rightarrow> set_index_Name (filter (f1_f2 (h r)) (data self)))
                    stocklist)"
    using a by (simp add: resolved_frame_def)
  show cached: "list_all (\<lambda>r. scrip (h' r) \<noteq> None) stocklist"
    by (simp add: h' list_all_iff cache_stocks_def)
  have eq: "map (\<lambda>r. resolved_frame other (h' r)) stocklist =
        map (\<lambda>r. resolved_frame self (h r)) stocklist"
    by (simp add: h' cache_stocks_def resolved_frame_def)
  from ne a show "get_scrip other stocklist h' = (Inr a, other, h')"
    by (simp add: eq get_scrip_resolved [OF cached_not_unresolved [OF cached]]
        cache_stocks_cached [OF cached] pd_concat_def)
qed


theorem get_scrip_answers_from_cache_witness:
  "get_scrip sample_master [0, 1] sample_heap =
     (Inr [(''RELIANCE'', sample_row ''RELIANCE'' ''EQ'' 2885), (''TCS'', sample_row ''TCS'' ''EQ'' 11536)],
      sample_master, cache_stocks sample_master [0, 1] sample_heap) \<and>
   get_scrip \<lparr>data = []\<rparr> [0, 1] (cache_stocks sample_master [0, 1] sample_heap) =
     (Inr [(''RELIANCE'', sample_row ''RELIANCE'' ''EQ'' 2885), (''TCS'', sample_row ''TCS'' ''EQ'' 11536)],
      \<lparr>data = []\<rparr>, cache_stocks sample_master [0, 1] sample_heap)"
proof -
  have res: "list_all (\<lambda>r. \<not> unresolved sample_master (sample_heap r)) [0, 1]"
    by (simp add: sample_unresolved)
  have first: "get_scrip sample_master [0, 1] sample_heap =
     (Inr [(''RELIANCE'', sample_row ''RELIANCE'' ''EQ'' 2885), (''TCS'', sample_row ''TCS'' ''EQ'' 11536)],
      sample_master, cache_stocks sample_master [0, 1] sample_heap)"
    unfolding get_scrip_resolved [OF res]
    by (simp add: pd_concat_def resolved_frame_def sample_heap_def
        sample_stock_def sample_master_def f1_f2_def sample_row_def set_index_Name_def)
  from get_scrip_answers_from_cache [of "[0, 1]" sample_heap _ sample_master _ sample_master
      "cache_stocks sample_master [0, 1] sample_heap" "\<lparr>data = []\<rparr>"] first
  show ?thesis by simp
qed

section \<open>No operation changes the table\<close>

text \<open>
  Claim C8. The table is read-only after load. \<^verbatim>\<open>get_scrip\<close> returns the scrip master it
  was called on, whether it succeeds or raises, and so do the two other methods of the
  class, \<^verbatim>\<open>__call__\<close> and \<^verbatim>\<open>save\<close>: the class has no method that updates or deletes rows.
  The operations of the client leave the client's scrip master as it was.
\<close>

theorem scrip_master_data_read_only:
  "fst (snd (get_scrip self stocklist h)) = self \<and>
   snd (ScripMaster_call self) = self \<and>
   fst (ScripMaster_save self filepath files) = self \<and>
   scrip_master (fst (snd (download_historical_data lib c stocklist interval start end' h))) = scrip_master c \<and>
   scrip_master (fst (snd (get_market_depth lib c stocklist h))) = scrip_master c \<and>
   scrip_master (fst (snd (get_market_feed lib c stocklist h))) = scrip_master c \<and>
   (case get_market_data lib c stocklist feed_type h of
      None \<Rightarrow> True
    | Some (res, c', h') \<Rightarrow> scrip_master c' = scrip_master c) \<and>
   scrip_master (fst (snd (get_option_chain lib c stock expiry_date update h))) = scrip_master c"
  by (simp only: get_scrip_keeps_self download_historical_data_keeps get_market_depth_keeps
      get_market_feed_keeps get_market_data_keeps get_option_chain_keeps
      ScripMaster_call_def ScripMaster_save_def fst_conv snd_conv simp_thms)

section \<open>What a lookup resolves to\<close>

text \<open>
  Claim C2, as stated: the lookup of (exchange, segment, symbol) under the series filter
  resolves to exactly one row or fails. It does not: against a table with an EQ row and an
  XX row for RELIANCE on N/C, \<^verbatim>\<open>get_scrip\<close> returns both rows.
\<close>

theorem get_scrip_two_series_counterexample:
  "fst (get_scrip sample_master_two_series [0] sample_heap) =
     Inr [(''RELIANCE'', sample_row ''RELIANCE'' ''EQ'' 2885),
          (''RELIANCE'', sample_row ''RELIANCE'' ''XX'' 500325)] \<and>
   length [(''RELIANCE'', sample_row ''RELIANCE'' ''EQ'' 2885),
           (''RELIANCE'', sample_row ''RELIANCE'' ''XX'' 500325)] = 2"
  by (simp add: get_scrip_single sample_heap_def sample_stock_def sample_master_two_series_def
      sample_row_def f1_f2_def set_index_Name_def)

text \<open>
  Claim C2, amended. For a stock without a cached scrip the lookup fails with the
  ValueError naming the symbol when no row passes the filter, and otherwise resolves to
  all the rows that pass it, in table order, each indexed by its name. When exactly one
  row \<open>r\<close> passes, the result is that row alone, with its broker code: so for
  RELIANCE on N/C against a table with one matching EQ row.
\<close>

theorem get_scrip_lookup_all_matches:
  assumes "scrip (h s) = None"
  shows "(filter (f1_f2 (h s)) (data self) = [] \<longrightarrow>
            fst (get_scrip self [s] h) =
              Inl (ValueError (''No Scrip found for '' @ symbol (h s) @ '' in scrip_master''))) \<and>
         (filter (f1_f2 (h s)) (data self) \<noteq> [] \<longrightarrow>
            fst (get_scrip self [s] h) =
              Inr (map (\<lambda>r. (Name r, r)) (filter (f1_f2 (h s)) (data self)))) \<and>
         (filter (f1_f2 (h s)) (data self) = [r] \<longrightarrow>
            fst (get_scrip self [s] h) = Inr [(Name r, r)] \<and>
            map (\<lambda>(i, x). Scripcode x) (projr (fst (get_scrip self [s] h))) = [Scripcode r])"
  using assms by (simp add: get_scrip_single no_scrip_found_def set_index_Name_def)

theorem get_scrip_lookup_all_matches_witness:
  "scrip (sample_heap 0) = None \<and>
   symbol (sample_heap 0) = ''RELIANCE'' \<and> exchange (sample_heap 0) = ''N'' \<and>
   exchange_type (sample_heap 0) = ''C'' \<and>
   filter (f1_f2 (sample_heap 0)) (data sample_master) = [sample_row ''RELIANCE'' ''EQ'' 2885] \<and>
   fst (get_scrip sample_master [0] sample_heap) =
     Inr [(''RELIANCE'', sample_row ''RELIANCE'' ''EQ'' 2885)] \<and>
   map (\<lambda>(i, x). Scripcode x) (projr (fst (get_scrip sample_master [0] sample_heap))) = [2885]"
proof -
  have a: "scrip (sample_heap 0) = None"
    by (simp add: sample_heap_def sample_stock_def)
  have b: "symbol (sample_heap 0) = ''RELIANCE'' \<and> exchange (sample_heap 0) = ''N'' \<and>
      exchange_type (sample_heap 0) = ''C''"
    by (simp add: sample_heap_def sample_stock_def)
  have c: "Name (sample_row ''RELIANCE'' ''EQ'' 2885) = ''RELIANCE''"
     "Scripcode (sample_row ''RELIANCE'' ''EQ'' 2885) = 2885"
    by (simp_all add: sample_row_def)
  from get_scrip_lookup_all_matches
      [of sample_heap 0 sample_master "sample_row ''RELIANCE'' ''EQ'' 2885"]
    a b c show ?thesis
    by (simp add: sample_filter_0)
qed

section \<open>Loading keeps every row\<close>

text \<open>
  Claim C6. When the CSV was read as \<open>raw\<close> and \<^verbatim>\<open>ScripMaster.__init__\<close> returns, the table
  has as many rows as \<open>raw\<close>, in the same order; each row has its name upper-cased, its
  symbol equal to that upper-cased name (so upper-casing it again changes nothing), and its
  expiry parsed, the other columns as read. The constructor does return when every name is
  present and every expiry text parses.
\<close>

theorem ScripMaster_init_keeps_rows:
  assumes "csv_source pd filepath = Inr raw"
  shows "(ScripMaster_init pd filepath = Inr self \<longrightarrow>
            length (data self) = length raw \<and>
            list_all2 (loaded_row pd) raw (data self) \<and>
            list_all (\<lambda>r. str_upper (Symbol r) = Symbol r \<and> Symbol r = Name r) (data self)) \<and>
         (list_all (\<lambda>r. Name r \<noteq> None \<and>
                         (case Expiry r of None \<Rightarrow> True | Some t \<Rightarrow> to_datetime_fmt pd t \<noteq> None)) raw
            \<longrightarrow> (\<exists>sm. ScripMaster_init pd filepath = Inr sm))"
proof (intro conjI impI)
  assume init: "ScripMaster_init pd filepath = Inr self"
  with assms obtain d1 where d1: "parse_expiry_column pd raw = Inr d1"
    and d2: "upper_name_column d1 = Inr (data self)"
    by (auto simp: ScripMaster_init_def csv_source_def split: sum.splits)
  from load_columns [OF d1 d2] show rel: "list_all2 (loaded_row pd) raw (data self)" .
  then show "length (data self) = length raw"
    by (simp add: list_all2_lengthD)
  show "list_all (\<lambda>r. str_upper (Symbol r) = Symbol r \<and> Symbol r = Name r) (data self)"
    unfolding list_all_iff
  proof
    fix r' assume "r' \<in> set (data self)"
    with rel obtain r where "loaded_row pd r r'"
      by (auto simp: list_all2_conv_all_nth in_set_conv_nth)
    then show "str_upper (Symbol r') = Symbol r' \<and> Symbol r' = Name r'"
      by (auto simp: loaded_row_def str_upper_idem split: option.splits)
  qed
next
  assume ok: "list_all (\<lambda>r. Name r \<noteq> None \<and>
       (case Expiry r of None \<Rightarrow> True | Some t \<Rightarrow> to_datetime_fmt pd t \<noteq> None)) raw"
  then have "list_all (\<lambda>r. case Expiry r of None \<Rightarrow> True | Some t \<Rightarrow> to_datetime_fmt pd t \<noteq> None) raw"
    by (simp add: list_all_iff)
  from parse_expiry_column_total [OF this] obtain d1 where
    d1: "parse_expiry_column pd raw = Inr d1" and names: "map Name d1 = map Name raw" by blast
  from ok have "list_all (\<lambda>n. n \<noteq> None) (map Name d1)"
    by (simp add: names list_all_iff)
  from upper_name_column_total [OF this] obtain d2 where "upper_name_column d1 = Inr d2" by blast
  with d1 assms show "\<exists>sm. ScripMaster_init pd filepath = Inr sm"
    by (simp add: ScripMaster_init_def csv_source_def)
qed

theorem ScripMaster_init_keeps_rows_witness:
  "csv_source sample_pandas None = Inr sample_csv \<and>
   ScripMaster_init sample_pandas None =
     Inr \<lparr>data =
       [\<lparr>Exch = Some ''N'', ExchType = Some ''C'', Symbol = ''RELIANCE'', Name = ''RELIANCE'',
         Series = Some ''EQ'', Scripcode = 2885, Expiry = None\<rparr>,
        \<lparr>Exch = Some ''N'', ExchType = Some ''D'', Symbol = ''NIFTY 30 MAR 2023'',
         Name = ''NIFTY 30 MAR 2023'', Series = Some ''XX'', Scripcode = 57919,
         Expiry = Some (2023, 3, 30, 14, 30, 0)\<rparr>]\<rparr> \<and>
   length sample_csv = 2"
proof -
  have src: "csv_source sample_pandas None = Inr sample_csv"
    by (simp add: csv_source_def sample_pandas_def)
  have init: "ScripMaster_init sample_pandas None =
     Inr \<lparr>data =
       [\<lparr>Exch = Some ''N'', ExchType = Some ''C'', Symbol = ''RELIANCE'', Name = ''RELIANCE'',
         Series = Some ''EQ'', Scripcode = 2885, Expiry = None\<rparr>,
        \<lparr>Exch = Some ''N'', ExchType = Some ''D'', Symbol = ''NIFTY 30 MAR 2023'',
         Name = ''NIFTY 30 MAR 2023'', Series = Some ''XX'', Scripcode = 57919,
         Expiry = Some (2023, 3, 30, 14, 30, 0)\<rparr>]\<rparr>"
    by (simp add: ScripMaster_init_def csv_source_def sample_pandas_def sample_csv_def
        str_upper_def upper_char_def)
  from ScripMaster_init_keeps_rows [OF src] init src show ?thesis
    by (simp add: sample_csv_def)
qed

section \<open>An invalid time frame returns the message\<close>

text \<open>
  Claim C3. For every time granularity outside 1m, 5m, 10m, 15m, 30m, 60m, 1d,
  \<^verbatim>\<open>historical_data\<close> does not raise and sends no request: it returns the fixed message
  instead of a table. (It has by then stored the client code and the token in the
  headers.)
\<close>

theorem historical_data_invalid_time_frame:
  assumes "time \<notin> {''1m'', ''5m'', ''10m'', ''15m'', ''30m'', ''60m'', ''1d''}"
  shows "historical_data lib self exch exchangeSegment scripCode time from to =
           (Inr (Message ''Invalid Time Frame. it should be within [1m,5m,10m,15m,30m,60m,1d].''),
            self\<lparr>jwt_headers :=
                   AList.update ''x-auth-token'' (Jwt_token self)
                     (AList.update ''x-clientcode'' (client_code self) (jwt_headers self))\<rparr>) \<and>
         requests (snd (historical_data lib self exch exchangeSegment scripCode time from to)) =
           requests self"
proof -
  from assms have "time \<notin> set timeList" by (simp add: timeList_def)
  then show ?thesis
    by (simp add: historical_data_def Let_def invalid_time_frame_def)
qed

theorem historical_data_invalid_time_frame_witness:
  "''2m'' \<notin> {''1m'', ''5m'', ''10m'', ''15m'', ''30m'', ''60m'', ''1d''} \<and>
   fst (historical_data sample_library sample_client ''N'' ''C'' (Scalar 2885) ''2m''
          ''2023-01-01'' ''2023-03-30'') =
     Inr (Message ''Invalid Time Frame. it should be within [1m,5m,10m,15m,30m,60m,1d].'') \<and>
   requests (snd (historical_data sample_library sample_client ''N'' ''C'' (Scalar 2885) ''2m''
          ''2023-01-01'' ''2023-03-30'')) = []"
proof -
  have a: "''2m'' \<notin> {''1m'', ''5m'', ''10m'', ''15m'', ''30m'', ''60m'', ''1d''}" by simp
  from historical_data_invalid_time_frame [OF a, of sample_library sample_client "''N''" "''C''"
      "Scalar 2885" "''2023-01-01''" "''2023-03-30''"] a
  show ?thesis by (simp add: sample_client_def)
qed

section \<open>A client without a scrip master\<close>

text \<open>
  Claim C4 says that every operation that needs the symbol table raises TypeError when the
  client has none. \<^verbatim>\<open>download_historical_data\<close> does, through \<^verbatim>\<open>__check_scrip_master\<close>.
  \<^verbatim>\<open>get_market_depth\<close>, \<^verbatim>\<open>get_market_feed\<close> and \<^verbatim>\<open>get_market_data\<close> do not call the check:
  they raise the AttributeError of the attribute lookup on \<^verbatim>\<open>None\<close>. All four fail before
  anything is sent, the client and the stocks unchanged.
\<close>

theorem scrip_master_None_errors:
  "download_historical_data lib (self\<lparr>scrip_master := None\<rparr>) stocklist interval start end' h =
     (Inl (TypeError ''scrip_master is None. Please provide ScripMaster instance.''),
      self\<lparr>scrip_master := None\<rparr>, h) \<and>
   get_market_depth lib (self\<lparr>scrip_master := None\<rparr>) stocklist h =
     (Inl (AttributeError ''NoneType object has no attribute get_scrip''),
      self\<lparr>scrip_master := None\<rparr>, h) \<and>
   get_market_feed lib (self\<lparr>scrip_master := None\<rparr>) stocklist h =
     (Inl (AttributeError ''NoneType object has no attribute get_scrip''),
      self\<lparr>scrip_master := None\<rparr>, h) \<and>
   get_market_data lib (self\<lparr>scrip_master := None\<rparr>) stocklist feed_type h =
     Some (Inl (AttributeError ''NoneType object has no attribute get_scrip''),
           self\<lparr>scrip_master := None\<rparr>, h)"
  by (simp add: download_historical_data_def check_scrip_master_def get_market_depth_def
      get_market_feed_def get_market_data_def scrip_master_get_scrip_def)

section \<open>The option chain cache\<close>

text \<open>
  Claim C5. With \<open>update = False\<close> and a cached option chain on the stock,
  \<^verbatim>\<open>get_option_chain\<close> returns the cached table and leaves the client, its request log
  included, and the stocks unchanged. With \<open>update = True\<close>, or with no cached chain, the
  cache is not read:
  \<^item> when the expiry date stands for a day, the expiry list is requested;
  \<^item> a table that is returned is the reply to an option chain request the call sent, and is
    stored on the stock;
  \<^item> when the day is among the fetched expiries and the chain request is answered, the
    call returns the reply, having sent the two requests and stored the reply on the stock.
\<close>

theorem get_option_chain_cache:
  "(option_chain (h stock) = Some d \<longrightarrow>
      get_option_chain lib self stock expiry_date False h = (Inr d, self, h)) \<and>
   ((update \<or> option_chain (h stock) = None) \<and> expiry_day lib expiry_date day \<longrightarrow>
      (\<exists>rest. requests (fst (snd (get_option_chain lib self stock expiry_date update h))) =
         requests self @ GetExpiry ''N'' ''NIFTY'' # rest)) \<and>
   ((update \<or> option_chain (h stock) = None) \<and>
    get_option_chain lib self stock expiry_date update h = (Inr d2, self', h') \<longrightarrow>
      (\<exists>ts. p5_get_option_chain lib (exchange (h stock)) (symbol (h stock)) ts = Inr d2 \<and>
         requests self' = requests self @
           [GetExpiry ''N'' ''NIFTY'', GetOptionChain (exchange (h stock)) (symbol (h stock)) ts]) \<and>
      option_chain (h' stock) = Some d2) \<and>
   ((update \<or> option_chain (h stock) = None) \<and> expiry_day lib expiry_date day \<and>
    fst (get_weekly_option_expiry lib self) = Inr d1 \<and>
    filter (\<lambda>r. Date r = day) d1 = r # rs \<and>
    p5_get_option_chain lib (exchange (h stock)) (symbol (h stock)) (Timestamp r) = Inr d3 \<longrightarrow>
      get_option_chain lib self stock expiry_date update h =
        (Inr d3,
         self\<lparr>requests := requests self @
           [GetExpiry ''N'' ''NIFTY'',
            GetOptionChain (exchange (h stock)) (symbol (h stock)) (Timestamp r)]\<rparr>,
         h(stock := (h stock)\<lparr>option_chain := Some d3\<rparr>)))"
proof (intro conjI impI)
  assume "option_chain (h stock) = Some d"
  then show "get_option_chain lib self stock expiry_date False h = (Inr d, self, h)"
    by (simp add: get_option_chain_def)
next
  assume A: "(update \<or> option_chain (h stock) = None) \<and> expiry_day lib expiry_date day"
  then have eq: "get_option_chain lib self stock expiry_date update h =
      fetch_option_chain lib self stock expiry_date h"
    by (auto simp: get_option_chain_def)
  from A fetch_option_chain_requests [of lib expiry_date day self stock h]
  show "\<exists>rest. requests (fst (snd (get_option_chain lib self stock expiry_date update h))) =
         requests self @ GetExpiry ''N'' ''NIFTY'' # rest"
    by (simp add: eq)
next
  assume B: "(update \<or> option_chain (h stock) = None) \<and>
    get_option_chain lib self stock expiry_date update h = (Inr d2, self', h')"
  then have "get_option_chain lib self stock expiry_date update h =
      fetch_option_chain lib self stock expiry_date h"
    by (cases update) (simp_all add: get_option_chain_def)
  with B have "fetch_option_chain lib self stock expiry_date h = (Inr d2, self', h')"
    by simp
  from fetch_option_chain_Inr [OF this]
  show "\<exists>ts. p5_get_option_chain lib (exchange (h stock)) (symbol (h stock)) ts = Inr d2 \<and>
         requests self' = requests self @
           [GetExpiry ''N'' ''NIFTY'', GetOptionChain (exchange (h stock)) (symbol (h stock)) ts]"
    and "option_chain (h' stock) = Some d2"
    by auto
next
  assume C: "(update \<or> option_chain (h stock) = None) \<and> expiry_day lib expiry_date day \<and>
    fst (get_weekly_option_expiry lib self) = Inr d1 \<and>
    filter (\<lambda>r. Date r = day) d1 = r # rs \<and>
    p5_get_option_chain lib (exchange (h stock)) (symbol (h stock)) (Timestamp r) = Inr d3"
  then have eq: "get_option_chain lib self stock expiry_date update h =
      fetch_option_chain lib self stock expiry_date h"
    by (auto simp: get_option_chain_def)
  from C show "get_option_chain lib self stock expiry_date update h =
        (Inr d3,
         self\<lparr>requests := requests self @
           [GetExpiry ''N'' ''NIFTY'',
            GetOptionChain (exchange (h stock)) (symbol (h stock)) (Timestamp r)]\<rparr>,
         h(stock := (h stock)\<lparr>option_chain := Some d3\<rparr>))"
    unfolding eq by (intro fetch_option_chain_success [of lib expiry_date day self d1 r rs]) simp_all
qed


theorem get_option_chain_cache_witness:
  "option_chain (sample_heap 0) = None \<and>
   expiry_day sample_library (PyStr ''2022-12-29'') (2022, 12, 29) \<and>
   get_option_chain sample_library sample_client 0 (PyStr ''2022-12-29'') False sample_heap =
     (Inr sample_chain,
      sample_client\<lparr>requests :=
        [GetExpiry ''N'' ''NIFTY'', GetOptionChain ''N'' ''RELIANCE'' 1672338600000]\<rparr>,
      sample_heap(0 := (sample_heap 0)\<lparr>option_chain := Some sample_chain\<rparr>)) \<and>
   get_option_chain sample_library
      (sample_client\<lparr>requests :=
        [GetExpiry ''N'' ''NIFTY'', GetOptionChain ''N'' ''RELIANCE'' 1672338600000]\<rparr>)
      0 (PyStr ''2022-12-29'') False
      (sample_heap(0 := (sample_heap 0)\<lparr>option_chain := Some sample_chain\<rparr>)) =
     (Inr sample_chain,
      sample_client\<lparr>requests :=
        [GetExpiry ''N'' ''NIFTY'', GetOptionChain ''N'' ''RELIANCE'' 1672338600000]\<rparr>,
      sample_heap(0 := (sample_heap 0)\<lparr>option_chain := Some sample_chain\<rparr>))"
proof -
  have a: "option_chain (sample_heap 0) = None" "exchange (sample_heap 0) = ''N''"
    "symbol (sample_heap 0) = ''RELIANCE''"
    by (simp_all add: sample_heap_def sample_stock_def)
  have b: "expiry_day sample_library (PyStr ''2022-12-29'') (2022, 12, 29)"
    by (simp add: expiry_day_def sample_library_def)
  have c: "filter (\<lambda>r. Date r = (2022, 12, 29))
      [\<lparr>ExpiryDate = ''/Date(1672338600000+0530)/'', Timestamp = 1672338600000,
           Date = (2022, 12, 29)\<rparr>] =
      \<lparr>ExpiryDate = ''/Date(1672338600000+0530)/'', Timestamp = 1672338600000,
           Date = (2022, 12, 29)\<rparr> # []"
    by simp
  have d: "p5_get_option_chain sample_library x y z = Inr sample_chain" for x y z
    by (simp add: sample_library_def)
  have e: "requests sample_client = []" by (simp add: sample_client_def)
  have first: "get_option_chain sample_library sample_client 0 (PyStr ''2022-12-29'') False sample_heap =
     (Inr sample_chain,
      sample_client\<lparr>requests :=
        [GetExpiry ''N'' ''NIFTY'', GetOptionChain ''N'' ''RELIANCE'' 1672338600000]\<rparr>,
      sample_heap(0 := (sample_heap 0)\<lparr>option_chain := Some sample_chain\<rparr>))"
    using get_option_chain_cache [of sample_heap 0 _ sample_library sample_client
        "PyStr ''2022-12-29''" False "(2022, 12, 29)" _ _ _
        "[\<lparr>ExpiryDate = ''/Date(1672338600000+0530)/'', Timestamp = 1672338600000,
           Date = (2022, 12, 29)\<rparr>]"
        "\<lparr>ExpiryDate = ''/Date(1672338600000+0530)/'', Timestamp = 1672338600000,
           Date = (2022, 12, 29)\<rparr>" "[]" sample_chain]
      a b c d e sample_expiry
    by simp
  have second: "get_option_chain sample_library
      (sample_client\<lparr>requests :=
        [GetExpiry ''N'' ''NIFTY'', GetOptionChain ''N'' ''RELIANCE'' 1672338600000]\<rparr>)
      0 (PyStr ''2022-12-29'') False
      (sample_heap(0 := (sample_heap 0)\<lparr>option_chain := Some sample_chain\<rparr>)) =
     (Inr sample_chain,
      sample_client\<lparr>requests :=
        [GetExpiry ''N'' ''NIFTY'', GetOptionChain ''N'' ''RELIANCE'' 1672338600000]\<rparr>,
      sample_heap(0 := (sample_heap 0)\<lparr>option_chain := Some sample_chain\<rparr>))"
    using get_option_chain_cache
      [of "sample_heap(0 := (sample_heap 0)\<lparr>option_chain := Some sample_chain\<rparr>)" 0 sample_chain
        sample_library
        "sample_client\<lparr>requests :=
        [GetExpiry ''N'' ''NIFTY'', GetOptionChain ''N'' ''RELIANCE'' 1672338600000]\<rparr>"
        "PyStr ''2022-12-29''"]
    by simp
  from a b first second show ?thesis by simp
qed


section \<open>A feed type that is neither md nor mf\<close>

text \<open>
  Claim C10. For a non-empty list of resolvable stocks and a feed type other than md and
  mf for which \<^verbatim>\<open>Request_Feed\<close> returns a payload, \<^verbatim>\<open>get_market_data\<close> opens the stream,
  sends the subscription, reads no message and closes: the events on the stream are the
  connect, the send and the close. The text parsed is \<^verbatim>\<open>[]\<close>, the empty JSON array, and
  the table returned is empty.
\<close>

theorem get_market_data_other_feed_type:
  assumes "feed_type \<noteq> ''md''" and "feed_type \<noteq> ''mf''"
    and "stocklist \<noteq> []"
    and "scrip_master self = Some sm"
    and "list_all (\<lambda>r. \<not> unresolved sm (h r)) stocklist"
    and "Request_Feed lib feed_type ''s''
           (scripcode_records (concat (map (\<lambda>r. resolved_frame sm (h r)) stocklist))) = Inr mf_list"
    and "create_connection lib (web_url1 self) = None"
    and "json_loads lib ''[]'' = Inr []"
  shows "get_market_data lib self stocklist feed_type h =
     Some (Inr [],
           self\<lparr>ws_events := ws_events self @
                   [WsConnect (web_url1 self), WsSend (json_dumps lib mf_list), WsClose]\<rparr>,
           cache_stocks sm stocklist h)"
  using assms(1,2,6,7,8)
  by (simp add: get_market_data_def Let_def
      scrip_master_get_scrip_resolved [OF assms(4) assms(3) assms(5)])


theorem get_market_data_other_feed_type_witness:
  "''oi'' \<noteq> ''md'' \<and> ''oi'' \<noteq> ''mf'' \<and> [0::nat] \<noteq> [] \<and>
   scrip_master sample_client = Some sample_master \<and>
   list_all (\<lambda>r. \<not> unresolved sample_master (sample_heap r)) [0] \<and>
   json_loads sample_library ''[]'' = Inr [] \<and>
   get_market_data sample_library sample_client [0] ''oi'' sample_heap =
     Some (Inr [],
           sample_client\<lparr>ws_events :=
             [WsConnect ''wss://openfeed.5paisa.com/Feeds/api/chat?Value1=token|C0001'',
              WsSend ''{}'', WsClose]\<rparr>,
           cache_stocks sample_master [0] sample_heap)"
proof -
  have a: "''oi'' \<noteq> ''md''" "''oi'' \<noteq> ''mf''" "[0::nat] \<noteq> []" by simp_all
  have b: "scrip_master sample_client = Some sample_master"
    by (simp add: sample_client_def)
  have c: "list_all (\<lambda>r. \<not> unresolved sample_master (sample_heap r)) [0]"
    by (simp add: sample_unresolved)
  have d: "Request_Feed sample_library ''oi'' ''s''
      (scripcode_records (concat (map (\<lambda>r. resolved_frame sample_master (sample_heap r)) [0]))) =
      Inr \<lparr>Method = ''oi'', Operation = ''s'', MarketFeedData =
        scripcode_records (concat (map (\<lambda>r. resolved_frame sample_master (sample_heap r)) [0]))\<rparr>"
    by (simp add: sample_library_def)
  have e: "create_connection sample_library (web_url1 sample_client) = None"
    by (simp add: sample_library_def)
  have f: "json_loads sample_library ''[]'' = Inr []"
    by (simp add: sample_library_def)
  have g: "web_url1 sample_client = ''wss://openfeed.5paisa.com/Feeds/api/chat?Value1=token|C0001''"
    "ws_events sample_client = []"
    by (simp_all add: web_url1_def sample_client_def)
  have k: "json_dumps sample_library x = ''{}''" for x
    by (simp add: sample_library_def)
  from get_market_data_other_feed_type [OF a(1) a(2) a(3) b c d e f] a b c f
  show ?thesis by (simp add: g k)
qed


end
